theory Spec2Isabelle
  imports Main "HOL-Library.Sublist"
begin

section \<open>Python values and exceptions\<close>

text \<open>
  The monitor is a Python class \<open>TwicketsClient\<close> (src/main.py).  Its methods are
  embedded as functions on an explicit world state; every \<open>raise\<close> of the source is a
  value \<open>Inl e\<close> of a result type.  An exception is its class and its message.
  The class hierarchy that the \<open>except\<close> clauses of the source test is written out as
  predicates on the class.
\<close>

text \<open>
  Modelled from the spec: \<open>NotTwoHundredStatusError\<close> (helpers.py is not part of the
  sources) is the "distinguished non-200 status failure" that the poll raises and the
  control loop catches: a class of its own under \<open>Exception\<close>, outside the
  \<open>http.client\<close> hierarchy.  The other classes are Python's own.
\<close>

datatype exn_class =
    NotTwoHundredStatusError
  | ResponseNotReady
  | HTTPException
  | RemoteDisconnected
  | GaiError
  | OSError
  | JSONDecodeError
  | UnicodeDecodeError
  | TypeError
  | KeyError
  | IndexError
  | AttributeError
  | NameError
  | UnboundLocalError
  | RuntimeError
  | SystemExit
  | KeyboardInterrupt

datatype exn = Exn (exn_class: exn_class) (message: string)

text \<open>
  \<open>http.client.ResponseNotReady\<close> and \<open>http.client.RemoteDisconnected\<close> derive from
  \<open>http.client.HTTPException\<close>; \<open>socket.gaierror\<close> and \<open>RemoteDisconnected\<close> derive from
  \<open>OSError\<close>; \<open>SystemExit\<close> and \<open>KeyboardInterrupt\<close> do not derive from \<open>Exception\<close>.
\<close>

fun is_HTTPException :: "exn_class \<Rightarrow> bool" where
  "is_HTTPException ResponseNotReady = True"
| "is_HTTPException HTTPException = True"
| "is_HTTPException RemoteDisconnected = True"
| "is_HTTPException _ = False"

fun is_OSError :: "exn_class \<Rightarrow> bool" where
  "is_OSError GaiError = True"
| "is_OSError OSError = True"
| "is_OSError RemoteDisconnected = True"
| "is_OSError _ = False"

fun is_Exception :: "exn_class \<Rightarrow> bool" where
  "is_Exception SystemExit = False"
| "is_Exception KeyboardInterrupt = False"
| "is_Exception _ = True"

text \<open>
  The values \<open>json.loads\<close> produces.  \<open>JNull\<close> is Python's \<open>None\<close>; a \<open>JObj\<close> holds the
  items of a \<open>dict\<close> in insertion order (the keys of a dict are distinct).  Numbers are
  the integers; floating-point literals are outside the model.
\<close>

datatype json =
    JNull
  | JBool bool
  | JInt int
  | JStr string
  | JArr "json list"
  | JObj "(string \<times> json) list"

subsection \<open>Built-in operations on these values\<close>

text \<open>\<open>str(n)\<close> for an integer: its decimal digits.\<close>

fun digits :: "nat \<Rightarrow> string" where
  "digits n = (if n < 10 then [''0123456789'' ! n]
               else digits (n div 10) @ [''0123456789'' ! (n mod 10)])"

declare digits.simps [simp del]

definition str_int :: "int \<Rightarrow> string" where
  "str_int i = (if i < 0 then CHR ''-'' # digits (nat (- i)) else digits (nat i))"

definition hex2 :: "nat \<Rightarrow> string" where
  "hex2 n = [''0123456789abcdef'' ! (n div 16 mod 16), ''0123456789abcdef'' ! (n mod 16)]"

fun join_with :: "string \<Rightarrow> string list \<Rightarrow> string" where
  "join_with sep [] = []"
| "join_with sep [x] = x"
| "join_with sep (x # y # ys) = x @ sep @ join_with sep (y # ys)"

text \<open>
  \<open>repr(s)\<close> for a string: double quotes when the string holds a single quote and no
  double quote, single quotes otherwise; the quote and the backslash are escaped, and
  so is every character that is not printable.
\<close>

definition printable :: "char \<Rightarrow> bool" where
  "printable c = (let n = (of_char c :: nat) in
     (32 \<le> n \<and> n \<le> 126) \<or> (161 \<le> n \<and> n \<noteq> 173))"

definition repr_char :: "char \<Rightarrow> char \<Rightarrow> string" where
  "repr_char q c =
     (if c = q \<or> c = CHR 0x5C then [CHR 0x5C, c]
      else if c = CHR 0x09 then [CHR 0x5C, CHR ''t'']
      else if c = CHR 0x0A then [CHR 0x5C, CHR ''n'']
      else if c = CHR 0x0D then [CHR 0x5C, CHR ''r'']
      else if printable c then [c]
      else [CHR 0x5C, CHR ''x''] @ hex2 (of_char c))"

definition repr_str :: "string \<Rightarrow> string" where
  "repr_str s =
     (let q = (if CHR 0x27 \<in> set s \<and> CHR 0x22 \<notin> set s then CHR 0x22 else CHR 0x27)
      in [q] @ concat (map (repr_char q) s) @ [q])"

fun py_repr :: "json \<Rightarrow> string" where
  "py_repr JNull = ''None''"
| "py_repr (JBool b) = (if b then ''True'' else ''False'')"
| "py_repr (JInt i) = str_int i"
| "py_repr (JStr s) = repr_str s"
| "py_repr (JArr xs) = ''['' @ join_with '', '' (map py_repr xs) @ '']''"
| "py_repr (JObj ps) =
     ''{'' @ join_with '', '' (map (\<lambda>p. repr_str (fst p) @ '': '' @ py_repr (snd p)) ps) @ ''}''"

text \<open>\<open>str(v)\<close>: a string is itself, any other value is its \<open>repr\<close>.\<close>

fun py_str :: "json \<Rightarrow> string" where
  "py_str (JStr s) = s"
| "py_str v = py_repr v"

text \<open>\<open>s.split(c)\<close> for a separator of one character: never empty.\<close>

fun split_on :: "char \<Rightarrow> string \<Rightarrow> string list" where
  "split_on c [] = [[]]"
| "split_on c (x # xs) =
     (if x = c then [] # split_on c xs
      else (case split_on c xs of [] \<Rightarrow> [[x]] | p # ps \<Rightarrow> (x # p) # ps))"

text \<open>\<open>xs[1]\<close> on a list: \<open>IndexError\<close> when the list has fewer than two elements.\<close>

fun index1 :: "'a list \<Rightarrow> exn + 'a" where
  "index1 (x # y # ys) = Inr y"
| "index1 _ = Inl (Exn IndexError ''list index out of range'')"

text \<open>Truthiness, as \<open>if items:\<close> tests it.\<close>

fun truthy :: "json \<Rightarrow> bool" where
  "truthy JNull = False"
| "truthy (JBool b) = b"
| "truthy (JInt i) = (i \<noteq> 0)"
| "truthy (JStr s) = (s \<noteq> [])"
| "truthy (JArr xs) = (xs \<noteq> [])"
| "truthy (JObj ps) = (ps \<noteq> [])"

text \<open>
  Iteration (\<open>for item in v\<close>, \<open>set(v)\<close>): a list yields its elements, a dict its keys,
  a string its characters; anything else is not iterable.
\<close>

fun py_iter :: "json \<Rightarrow> exn + json list" where
  "py_iter (JArr xs) = Inr xs"
| "py_iter (JObj ps) = Inr (map (\<lambda>p. JStr (fst p)) ps)"
| "py_iter (JStr s) = Inr (map (\<lambda>c. JStr [c]) s)"
| "py_iter _ = Inl (Exn TypeError ''object is not iterable'')"

text \<open>
  Subscription with a string key (\<open>v['id']\<close>): a dict yields the value or raises
  \<open>KeyError\<close>; a list or a string accepts integer indices only; nothing else can be
  subscripted.
\<close>

fun py_getitem :: "json \<Rightarrow> string \<Rightarrow> exn + json" where
  "py_getitem (JObj ps) k =
     (case map_of ps k of None \<Rightarrow> Inl (Exn KeyError (repr_str k)) | Some v \<Rightarrow> Inr v)"
| "py_getitem (JArr xs) k =
     Inl (Exn TypeError ''list indices must be integers or slices, not str'')"
| "py_getitem (JStr s) k = Inl (Exn TypeError ''string indices must be integers'')"
| "py_getitem _ k = Inl (Exn TypeError ''object is not subscriptable'')"

text \<open>\<open>d.get(k)\<close>: only a dict has the method; a missing key yields \<open>None\<close>.\<close>

fun py_get :: "json \<Rightarrow> string \<Rightarrow> exn + json" where
  "py_get (JObj ps) k = Inr (case map_of ps k of None \<Rightarrow> JNull | Some v \<Rightarrow> v)"
| "py_get _ k = Inl (Exn AttributeError ''object has no attribute get'')"

text \<open>\<open>len(v)\<close>: defined on strings, lists and dicts.\<close>

fun py_len :: "json \<Rightarrow> exn + nat" where
  "py_len (JStr s) = Inr (length s)"
| "py_len (JArr xs) = Inr (length xs)"
| "py_len (JObj ps) = Inr (length ps)"
| "py_len _ = Inl (Exn TypeError ''object has no len()'')"

text \<open>
  Membership of a string (\<open>key in v\<close>): among the keys of a dict, among the elements
  of a list, as a substring of a string; anything else is not a container.
\<close>

fun is_prefix :: "string \<Rightarrow> string \<Rightarrow> bool" where
  "is_prefix [] ys = True"
| "is_prefix (x # xs) [] = False"
| "is_prefix (x # xs) (y # ys) = (x = y \<and> is_prefix xs ys)"

fun is_substring :: "string \<Rightarrow> string \<Rightarrow> bool" where
  "is_substring xs [] = (xs = [])"
| "is_substring xs (y # ys) = (is_prefix xs (y # ys) \<or> is_substring xs ys)"

fun py_in :: "string \<Rightarrow> json \<Rightarrow> exn + bool" where
  "py_in k (JObj ps) = Inr (k \<in> set (map fst ps))"
| "py_in k (JArr xs) = Inr (JStr k \<in> set xs)"
| "py_in k (JStr s) = Inr (is_substring k s)"
| "py_in k _ = Inl (Exn TypeError ''argument is not iterable'')"

text \<open>
  A Python \<open>set\<close> is modelled by the list of its elements without repetition (the model
  iterates in insertion order; no theorem depends on the order).  Elements are compared
  as Python compares hashable values: \<open>True\<close> and \<open>False\<close> are the integers 1 and 0.
  Lists and dicts are not hashable.
\<close>

fun py_key :: "json \<Rightarrow> json" where
  "py_key (JBool b) = JInt (if b then 1 else 0)"
| "py_key v = v"

fun hashable :: "json \<Rightarrow> bool" where
  "hashable (JArr xs) = False"
| "hashable (JObj ps) = False"
| "hashable _ = True"

definition set_member :: "json \<Rightarrow> json list \<Rightarrow> bool" where
  "set_member x s = (py_key x \<in> set (map py_key s))"

definition set_add :: "json \<Rightarrow> json list \<Rightarrow> json list" where
  "set_add x s = (if set_member x s then s else s @ [x])"

definition py_set :: "json \<Rightarrow> exn + json list" where
  "py_set v =
     (case py_iter v of
        Inl e \<Rightarrow> Inl e
      | Inr xs \<Rightarrow>
          if list_all hashable xs then Inr (fold set_add xs [])
          else Inl (Exn TypeError ''unhashable type''))"

subsection \<open>The JSON encoder\<close>

text \<open>
  \<open>json.dumps\<close> with its defaults (\<open>ensure_ascii\<close>, separators \<open>', '\<close> and \<open>': '\<close>):
  inside a string the double quote, the backslash and the control characters with a
  short escape are written with it, and every other character outside the printable
  ASCII range as \<open>\u00XX\<close>.
\<close>

definition encode_char :: "char \<Rightarrow> string" where
  "encode_char c =
     (if c = CHR 0x22 then [CHR 0x5C, CHR 0x22]
      else if c = CHR 0x5C then [CHR 0x5C, CHR 0x5C]
      else if c = CHR 0x08 then [CHR 0x5C, CHR ''b'']
      else if c = CHR 0x0C then [CHR 0x5C, CHR ''f'']
      else if c = CHR 0x0A then [CHR 0x5C, CHR ''n'']
      else if c = CHR 0x0D then [CHR 0x5C, CHR ''r'']
      else if c = CHR 0x09 then [CHR 0x5C, CHR ''t'']
      else if 32 \<le> (of_char c :: nat) \<and> (of_char c :: nat) \<le> 126 then [c]
      else [CHR 0x5C, CHR ''u'', CHR ''0'', CHR ''0''] @ hex2 (of_char c))"

definition encode_basestring_ascii :: "string \<Rightarrow> string" where
  "encode_basestring_ascii s = [CHR 0x22] @ concat (map encode_char s) @ [CHR 0x22]"

fun json_dumps :: "json \<Rightarrow> string" where
  "json_dumps JNull = ''null''"
| "json_dumps (JBool b) = (if b then ''true'' else ''false'')"
| "json_dumps (JInt i) = str_int i"
| "json_dumps (JStr s) = encode_basestring_ascii s"
| "json_dumps (JArr xs) = ''['' @ join_with '', '' (map json_dumps xs) @ '']''"
| "json_dumps (JObj ps) =
     ''{'' @ join_with '', ''
        (map (\<lambda>p. encode_basestring_ascii (fst p) @ '': '' @ json_dumps (snd p)) ps) @ ''}''"

subsection \<open>A decoder for the persisted form\<close>

text \<open>
  The ledger is persisted as a JSON array of strings.  \<open>decode_string_array\<close> reads
  such a text the way \<open>json.load\<close> scans it (white space, the string escapes, a strict
  scan that refuses raw control characters, nothing after the closing bracket) and
  refuses every other text, also a \<open>\u\<close> escape above \<open>00ff\<close>, which denotes no
  character of the model.  It serves as the decoder of the example environments.
\<close>

definition is_ws :: "char \<Rightarrow> bool" where
  "is_ws c = (c = CHR '' '' \<or> c = CHR 0x09 \<or> c = CHR 0x0A \<or> c = CHR 0x0D)"

definition skip_ws :: "string \<Rightarrow> string" where
  "skip_ws t = dropWhile is_ws t"

definition hexval :: "char \<Rightarrow> nat option" where
  "hexval c =
     (let n = (of_char c :: nat) in
      if 48 \<le> n \<and> n \<le> 57 then Some (n - 48)
      else if 97 \<le> n \<and> n \<le> 102 then Some (n - 87)
      else if 65 \<le> n \<and> n \<le> 70 then Some (n - 55)
      else None)"

definition decode_uXXXX :: "char \<Rightarrow> char \<Rightarrow> char \<Rightarrow> char \<Rightarrow> char option" where
  "decode_uXXXX a b c d =
     (case (hexval a, hexval b, hexval c, hexval d) of
        (Some h3, Some h2, Some h1, Some h0) \<Rightarrow>
          if h3 = 0 \<and> h2 = 0 then Some (char_of (h1 * 16 + h0)) else None
      | _ \<Rightarrow> None)"

definition unescape :: "char \<Rightarrow> char option" where
  "unescape e =
     (if e = CHR 0x22 then Some (CHR 0x22)
      else if e = CHR 0x5C then Some (CHR 0x5C)
      else if e = CHR ''/'' then Some (CHR ''/'')
      else if e = CHR ''b'' then Some (CHR 0x08)
      else if e = CHR ''f'' then Some (CHR 0x0C)
      else if e = CHR ''n'' then Some (CHR 0x0A)
      else if e = CHR ''r'' then Some (CHR 0x0D)
      else if e = CHR ''t'' then Some (CHR 0x09)
      else None)"

definition cons_fst :: "'a \<Rightarrow> ('a list \<times> 'b) option \<Rightarrow> ('a list \<times> 'b) option" where
  "cons_fst c r = (case r of None \<Rightarrow> None | Some (s, t) \<Rightarrow> Some (c # s, t))"

text \<open>The text after an opening quote: the string it holds and what follows the closing quote.\<close>

fun scan_string :: "string \<Rightarrow> (string \<times> string) option" where
  "scan_string [] = None"
| "scan_string (c # cs) =
     (if c = CHR 0x22 then Some ([], cs)
      else if c = CHR 0x5C then
        (case cs of
           [] \<Rightarrow> None
         | e # cs1 \<Rightarrow>
             if e = CHR ''u'' then
               (case cs1 of
                  a # b # x # y # cs2 \<Rightarrow>
                    (case decode_uXXXX a b x y of
                       None \<Rightarrow> None
                     | Some ch \<Rightarrow> cons_fst ch (scan_string cs2))
                | _ \<Rightarrow> None)
             else
               (case unescape e of
                  None \<Rightarrow> None
                | Some ch \<Rightarrow> cons_fst ch (scan_string cs1)))
      else if (of_char c :: nat) < 32 then None
      else cons_fst c (scan_string cs))"

text \<open>
  The elements of a non-empty array, from the first one on.  The first argument bounds
  the number of elements; the length of the text is always enough.
\<close>

fun scan_elements :: "nat \<Rightarrow> string \<Rightarrow> string list option" where
  "scan_elements 0 t = None"
| "scan_elements (Suc n) t =
     (case t of
        [] \<Rightarrow> None
      | q # t1 \<Rightarrow>
          if q = CHR 0x22 then
            (case scan_string t1 of
               None \<Rightarrow> None
             | Some (s, t2) \<Rightarrow>
                 (case skip_ws t2 of
                    [] \<Rightarrow> None
                  | c # t3 \<Rightarrow>
                      if c = CHR '']'' then (if skip_ws t3 = [] then Some [s] else None)
                      else if c = CHR '','' then map_option ((#) s) (scan_elements n (skip_ws t3))
                      else None))
          else None)"

definition decode_string_array :: "string \<Rightarrow> json option" where
  "decode_string_array t =
     (case skip_ws t of
        [] \<Rightarrow> None
      | b # t1 \<Rightarrow>
          if b = CHR ''['' then
            (case skip_ws t1 of
               [] \<Rightarrow> None
             | c # t2 \<Rightarrow>
                 if c = CHR '']'' then (if skip_ws t2 = [] then Some (JArr []) else None)
                 else map_option (\<lambda>xs. JArr (map JStr xs)) (scan_elements (length t) (c # t2)))
          else None)"

section \<open>The world the client acts on\<close>

text \<open>
  What the program does not define itself is an \<open>environment\<close>: the process
  environment variables, the decoder of the locale's encoding applied to the bytes of
  a file that is read as text (\<open>None\<close> stands for \<open>UnicodeDecodeError\<close>), the decoder
  \<open>json.load\<close> applied to the text of a file (\<open>None\<close> stands for
  \<open>json.JSONDecodeError\<close>), and the outcome of the n-th call of \<open>conn.connect()\<close>, of
  \<open>conn.request(...)\<close> and of \<open>conn.getresponse()\<close>.  A response is its status and the
  outcome of \<open>json.loads(response.read().decode())\<close>.
\<close>

record response =
  status :: int
  payload :: "exn + json"

record environment =
  getenv :: "string \<Rightarrow> string option"
  locale_decode :: "string \<Rightarrow> string option"
  json_load :: "string \<Rightarrow> json option"
  connect_outcome :: "nat \<Rightarrow> exn option"
  request_outcome :: "nat \<Rightarrow> exn option"
  response_outcome :: "nat \<Rightarrow> exn + response"

text \<open>
  The effects of the program, in the order they happen.  A \<open>Sleep\<close> carries its
  duration in microseconds, the resolution of \<open>datetime\<close>.
\<close>

datatype event =
    Connect
  | Close
  | Request string string string
  | Sleep int
  | Notify string
  | Save string
  | LogError string

text \<open>
  The mutable state: whether \<open>self.conn.sock\<close> is a socket, the files on disk, the
  effects so far, and how many calls of each network operation have been made.
\<close>

record world =
  sock :: bool
  files :: "string \<Rightarrow> string option"
  trace :: "event list"
  connects :: nat
  requests :: nat
  responses :: nat

definition emit :: "event \<Rightarrow> world \<Rightarrow> world" where
  "emit e w = w\<lparr>trace := trace w @ [e]\<rparr>"

definition seconds :: "int \<Rightarrow> int" where
  "seconds n = n * 1000000"

definition sleep :: "int \<Rightarrow> world \<Rightarrow> world" where
  "sleep d w = emit (Sleep d) w"

text \<open>
  \<open>HTTPSConnection.connect\<close> sets the socket when it succeeds; \<open>close\<close> drops it;
  \<open>request\<close> opens the connection first when there is no socket (\<open>auto_open\<close>).
\<close>

definition conn_connect :: "environment \<Rightarrow> world \<Rightarrow> (exn + unit) \<times> world" where
  "conn_connect env w =
     (let w1 = emit Connect (w\<lparr>connects := connects w + 1\<rparr>)
      in case connect_outcome env (connects w) of
           Some e \<Rightarrow> (Inl e, w1)
         | None \<Rightarrow> (Inr (), w1\<lparr>sock := True\<rparr>))"

definition conn_close :: "world \<Rightarrow> world" where
  "conn_close w = emit Close (w\<lparr>sock := False\<rparr>)"

definition send_request :: "environment \<Rightarrow> string \<Rightarrow> string \<Rightarrow> string \<Rightarrow> world \<Rightarrow> (exn + unit) \<times> world" where
  "send_request env method url body w =
     (let w1 = emit (Request method url body) (w\<lparr>requests := requests w + 1\<rparr>)
      in case request_outcome env (requests w) of
           Some e \<Rightarrow> (Inl e, w1)
         | None \<Rightarrow> (Inr (), w1))"

definition conn_request :: "environment \<Rightarrow> string \<Rightarrow> string \<Rightarrow> string \<Rightarrow> world \<Rightarrow> (exn + unit) \<times> world" where
  "conn_request env method url body w =
     (if sock w then send_request env method url body w
      else (case conn_connect env w of
              (Inl e, w1) \<Rightarrow> (Inl e, w1)
            | (Inr u, w1) \<Rightarrow> send_request env method url body w1))"

definition conn_getresponse :: "environment \<Rightarrow> world \<Rightarrow> (exn + response) \<times> world" where
  "conn_getresponse env w = (response_outcome env (responses w), w\<lparr>responses := responses w + 1\<rparr>)"

text \<open>
  Modelled from the spec: \<open>ProwlNoticationsClient.send_notification\<close> (helpers.py is not
  part of the sources): it "sends a text notification to an external push service
  given a message string"; a failed delivery is logged by the notifier.
\<close>

definition send_notification :: "string \<Rightarrow> world \<Rightarrow> world" where
  "send_notification msg w = emit (Notify msg) w"

definition notifications :: "world \<Rightarrow> string list" where
  "notifications w = concat (map (\<lambda>e. case e of Notify m \<Rightarrow> [m] | _ \<Rightarrow> []) (trace w))"

section \<open>The client\<close>

definition MAX_RETRIES :: nat where
  "MAX_RETRIES = 5"

definition BASE_DELAY :: int where
  "BASE_DELAY = 60"

definition NOTIFIED_IDS_FILE :: string where
  "NOTIFIED_IDS_FILE = ''notified_ids.json''"

definition REQUIRED_ENV_VARIABLES :: "string list" where
  "REQUIRED_ENV_VARIABLES =
     [''TWICKETS_API_KEY'', ''TWICKETS_EMAIL'', ''TWICKETS_PASSWORD'',
      ''TWICKETS_CLIENT_ID'', ''TWICKETS_EVENT_ID'', ''PROWL_API_KEY'']"

text \<open>The world after \<open>__init__\<close>: a connection object that is not connected.\<close>

definition init_world :: "(string \<Rightarrow> string option) \<Rightarrow> world" where
  "init_world fs = \<lparr>sock = False, files = fs, trace = [], connects = 0, requests = 0, responses = 0\<rparr>"

subsection \<open>The deduplication ledger\<close>

text \<open>
  A file holds bytes.  \<open>open(path, "r")\<close> reads it as text in the locale's encoding:
  bytes in the ASCII range are the characters they encode (the encodings Python
  takes from a locale all extend ASCII), and a file with any other byte is decoded
  by the environment, or cannot be decoded, which raises \<open>UnicodeDecodeError\<close>.
  (The translation of line ends changes neither whether a text is JSON nor its value.)
\<close>

definition is_ascii :: "char \<Rightarrow> bool" where
  "is_ascii c = ((of_char c :: nat) < 128)"

definition read_text :: "environment \<Rightarrow> string \<Rightarrow> string option" where
  "read_text env bytes = (if list_all is_ascii bytes then Some bytes else locale_decode env bytes)"

text \<open>
  \<open>load_notified_ids\<close>: when the file exists, \<open>json.load(f)\<close> reads its text and decodes
  it, and the result is made a set; of the exceptions this can raise only
  \<open>JSONDecodeError\<close> is caught, and yields the empty set.  The empty set when there is
  no file.
\<close>

definition load_notified_ids :: "environment \<Rightarrow> world \<Rightarrow> exn + json list" where
  "load_notified_ids env w =
     (case files w NOTIFIED_IDS_FILE of
        Some bytes \<Rightarrow>
          (case read_text env bytes of
             Some text \<Rightarrow>
               (case json_load env text of
                  Some v \<Rightarrow> py_set v
                | None \<Rightarrow> Inr [])
           | None \<Rightarrow> Inl (Exn UnicodeDecodeError ''codec cannot decode byte''))
      | None \<Rightarrow> Inr [])"

text \<open>
  \<open>save_notified_ids\<close>: the file is overwritten with \<open>json.dump(list(notified_ids))\<close>,
  a text of ASCII characters, which is its own encoding.
\<close>

definition save_notified_ids :: "json list \<Rightarrow> world \<Rightarrow> world" where
  "save_notified_ids notified_ids w =
     emit (Save (json_dumps (JArr notified_ids)))
       (w\<lparr>files := (files w)(NOTIFIED_IDS_FILE := Some (json_dumps (JArr notified_ids)))\<rparr>)"

subsection \<open>The connection\<close>

text \<open>
  \<open>_ensure_connection\<close>, the loop from a given value of \<open>retries\<close>.  The handler of
  \<open>socket.gaierror\<close> formats a message with the bare name \<open>BASE_DELAY\<close>, which is bound
  neither in the method nor in the module: evaluating it raises \<open>NameError\<close>.  The
  handler of the other connection errors closes the connection, builds a new one and
  connects again outside any \<open>try\<close>.  After either handler \<open>retries\<close> is incremented
  before the sleep is computed.
\<close>

function ensure_connection_from :: "environment \<Rightarrow> nat \<Rightarrow> world \<Rightarrow> (exn + unit) \<times> world" where
  "ensure_connection_from env retries w =
     (if retries < MAX_RETRIES then
        (case conn_connect env w of
           (Inr u, w1) \<Rightarrow> (Inr (), w1)
         | (Inl e, w1) \<Rightarrow>
             if exn_class e = GaiError then
               (Inl (Exn NameError ''name 'BASE_DELAY' is not defined''), w1)
             else if is_HTTPException (exn_class e) \<or> is_OSError (exn_class e) then
               (case conn_connect env (conn_close w1) of
                  (Inl e2, w2) \<Rightarrow> (Inl e2, w2)
                | (Inr u, w2) \<Rightarrow>
                    ensure_connection_from env (retries + 1)
                      (sleep (seconds (BASE_DELAY * 2 ^ (retries + 1))) w2))
             else (Inl e, w1))
      else (Inr (), emit (LogError ''Max retries reached. Could not establish a connection.'') w))"
  by pat_completeness auto
termination
  by (relation "measure (\<lambda>(env, retries, w). MAX_RETRIES - retries)") auto

declare ensure_connection_from.simps [simp del]

definition ensure_connection :: "environment \<Rightarrow> world \<Rightarrow> (exn + unit) \<times> world" where
  "ensure_connection env w = ensure_connection_from env 0 w"

subsection \<open>Authentication\<close>

text \<open>An environment variable inside an f-string or a JSON body: \<open>None\<close> when unset.\<close>

definition fmt_env :: "string option \<Rightarrow> string" where
  "fmt_env v = (case v of None \<Rightarrow> ''None'' | Some s \<Rightarrow> s)"

definition json_env :: "string option \<Rightarrow> json" where
  "json_env v = (case v of None \<Rightarrow> JNull | Some s \<Rightarrow> JStr s)"

text \<open>
  \<open>validate_auth_response\<close>: \<open>all(key in response for key in required_keys)\<close>, then
  \<open>response['responseData']\<close>.
\<close>

fun all_in :: "string list \<Rightarrow> json \<Rightarrow> exn + bool" where
  "all_in [] v = Inr True"
| "all_in (k # ks) v =
     (case py_in k v of
        Inl e \<Rightarrow> Inl e
      | Inr b \<Rightarrow> if b then all_in ks v else Inr False)"

definition required_keys :: "string list" where
  "required_keys = [''responseData'', ''responseCode'', ''description'', ''clock'']"

definition validate_auth_response :: "json \<Rightarrow> exn + json" where
  "validate_auth_response response =
     (case all_in required_keys response of
        Inl e \<Rightarrow> Inl e
      | Inr b \<Rightarrow> if b then py_getitem response ''responseData'' else Inr JNull)"

definition login_url :: "environment \<Rightarrow> string" where
  "login_url env = ''/services/auth/login?api_key='' @ fmt_env (getenv env ''TWICKETS_API_KEY'')"

definition login_body :: "environment \<Rightarrow> string" where
  "login_body env =
     json_dumps (JObj [(''login'', json_env (getenv env ''TWICKETS_EMAIL'')),
                       (''password'', json_env (getenv env ''TWICKETS_PASSWORD'')),
                       (''accountType'', JStr ''U'')])"

definition authenticate :: "environment \<Rightarrow> world \<Rightarrow> (exn + json) \<times> world" where
  "authenticate env w =
     (case ensure_connection env w of
        (Inl e, w1) \<Rightarrow> (Inl e, w1)
      | (Inr u, w1) \<Rightarrow>
          (case conn_request env ''POST'' (login_url env) (login_body env) w1 of
             (Inl e, w2) \<Rightarrow> (Inl e, w2)
           | (Inr u, w2) \<Rightarrow>
               (case conn_getresponse env w2 of
                  (Inl e, w3) \<Rightarrow> (Inl e, w3)
                | (Inr resp, w3) \<Rightarrow>
                    if status resp = 200 then
                      (case payload resp of
                         Inl e \<Rightarrow> (Inl e, w3)
                       | Inr result \<Rightarrow> (validate_auth_response result, w3))
                    else (Inr JNull, w3))))"

subsection \<open>The availability poll\<close>

definition listings_url :: "environment \<Rightarrow> string" where
  "listings_url env =
     ''/services/g2/inventory/listings/'' @ fmt_env (getenv env ''TWICKETS_EVENT_ID'')
       @ ''?api_key='' @ fmt_env (getenv env ''TWICKETS_API_KEY'')"

text \<open>
  The body of the \<open>try\<close> in \<open>check_event_availability\<close>: the request, the response, and
  on status 200 the \<open>responseData\<close> of the decoded result (\<open>result.get\<close> needs a dict,
  \<open>len(items)\<close> in the log line needs a sized value); any other status raises
  \<open>NotTwoHundredStatusError\<close>.
\<close>

definition fetch_items :: "environment \<Rightarrow> world \<Rightarrow> (exn + json) \<times> world" where
  "fetch_items env w =
     (case conn_request env ''GET'' (listings_url env) '''' w of
        (Inl e, w1) \<Rightarrow> (Inl e, w1)
      | (Inr u, w1) \<Rightarrow>
          (case conn_getresponse env w1 of
             (Inl e, w2) \<Rightarrow> (Inl e, w2)
           | (Inr resp, w2) \<Rightarrow>
               if status resp = 200 then
                 (case payload resp of
                    Inl e \<Rightarrow> (Inl e, w2)
                  | Inr result \<Rightarrow>
                      (case py_get result ''responseCode'' of
                         Inl e \<Rightarrow> (Inl e, w2)
                       | Inr code \<Rightarrow>
                           (case py_get result ''responseData'' of
                              Inl e \<Rightarrow> (Inl e, w2)
                            | Inr items \<Rightarrow>
                                (case py_len items of
                                   Inl e \<Rightarrow> (Inl e, w2)
                                 | Inr n \<Rightarrow> (Inr items, w2)))))
               else (Inl (Exn NotTwoHundredStatusError
                           (''Check availability status: '' @ str_int (status resp))), w2)))"

text \<open>
  \<open>check_event_availability\<close> after \<open>_ensure_connection\<close> has returned: with a socket,
  the \<open>try\<close> and its two handlers (\<open>ResponseNotReady\<close> is passed over, any other
  \<open>HTTPException\<close> closes the connection), which both fall through to \<open>return []\<close>;
  without a socket, \<open>return []\<close> at once.
\<close>

definition poll_connection :: "environment \<Rightarrow> world \<Rightarrow> (exn + json) \<times> world" where
  "poll_connection env w =
     (if sock w then
        (case fetch_items env w of
           (Inr items, w1) \<Rightarrow> (Inr items, w1)
         | (Inl e, w1) \<Rightarrow>
             if exn_class e = ResponseNotReady then (Inr (JArr []), w1)
             else if is_HTTPException (exn_class e) then (Inr (JArr []), conn_close w1)
             else (Inl e, w1))
      else (Inr (JArr []), w))"

definition check_event_availability :: "environment \<Rightarrow> world \<Rightarrow> (exn + json) \<times> world" where
  "check_event_availability env w =
     (case ensure_connection env w of
        (Inl e, w1) \<Rightarrow> (Inl e, w1)
      | (Inr u, w1) \<Rightarrow> poll_connection env w1)"

subsection \<open>The control loop\<close>

text \<open>
  A \<open>datetime\<close> is its day (the proleptic ordinal of the date) and its time of day;
  the range of years that \<open>datetime\<close> supports is not modelled.  A difference of two
  datetimes, and so the argument of \<open>time.sleep\<close>, is a number of microseconds.
\<close>

record datetime =
  day :: int
  hour :: nat
  minute :: nat
  second :: nat
  microsecond :: nat

definition time_of_day :: "datetime \<Rightarrow> int" where
  "time_of_day t = seconds (int (hour t) * 3600 + int (minute t) * 60 + int (second t)) + int (microsecond t)"

definition total_microseconds :: "datetime \<Rightarrow> datetime \<Rightarrow> int" where
  "total_microseconds a b = seconds ((day a - day b) * 86400) + time_of_day a - time_of_day b"

text \<open>\<open>tomorrow = now + timedelta(days=1)\<close> and \<open>datetime(tomorrow.year, tomorrow.month, tomorrow.day, 8, 0, 0)\<close>.\<close>

definition tomorrow :: "datetime \<Rightarrow> datetime" where
  "tomorrow now = now\<lparr>day := day now + 1\<rparr>"

definition wake_time :: "datetime \<Rightarrow> datetime" where
  "wake_time now = \<lparr>day = day (tomorrow now), hour = 8, minute = 0, second = 0, microsecond = 0\<rparr>"

definition sleep_duration :: "datetime \<Rightarrow> int" where
  "sleep_duration now = total_microseconds (wake_time now) now"

text \<open>
  What one pass of the loop reads from outside: the clock, and the two random delays
  \<open>round(random.uniform(15, 30))\<close> and \<open>round(random.uniform(180, 360))\<close>.
\<close>

record tick =
  now :: datetime
  time_delay :: int
  auth_time_delay :: int

text \<open>The local variables of \<open>run\<close> that outlive a pass of the loop.\<close>

record locals =
  count :: int
  attempts :: nat
  notified_ids :: "json list"

text \<open>
  The body of \<open>for item in items\<close>, over the elements still to visit.  The identifier is
  read from \<open>items\<close>, the whole value, not from \<open>item\<close>.
\<close>

fun notify_items :: "json \<Rightarrow> json list \<Rightarrow> locals \<Rightarrow> world \<Rightarrow> exn option \<times> locals \<times> world" where
  "notify_items items [] l w = (None, l, w)"
| "notify_items items (item # rest) l w =
     (case py_getitem items ''id'' of
        Inl e \<Rightarrow> (Some e, l, w)
      | Inr v \<Rightarrow>
          (case index1 (split_on (CHR ''@'') (py_str v)) of
             Inl e \<Rightarrow> (Some e, l, w)
           | Inr ident \<Rightarrow>
               if set_member (JStr ident) (notified_ids l) then notify_items items rest l w
               else
                 (let url = ''https://www.twickets.live/app/block/'' @ ident @ '',1'';
                      w1 = send_notification (''Check '' @ url) w;
                      l1 = l\<lparr>notified_ids := set_add (JStr ident) (notified_ids l)\<rparr>;
                      w2 = save_notified_ids (notified_ids l1) w1
                  in notify_items items rest l1 w2)))"

definition handle_items :: "json \<Rightarrow> locals \<Rightarrow> world \<Rightarrow> exn option \<times> locals \<times> world" where
  "handle_items items l w =
     (if truthy items then
        (case py_iter items of
           Inl e \<Rightarrow> (Some e, l, w)
         | Inr its \<Rightarrow> notify_items items its l w)
      else (None, l, w))"

text \<open>
  The \<open>try\<close> block after \<open>check_event_availability\<close> has returned or raised: on a
  result the counters are reset, the items are handled and the loop sleeps for the
  short delay (\<open>backoff\<close> is 0).
\<close>

definition after_poll :: "tick \<Rightarrow> locals \<Rightarrow> (exn + json) \<times> world \<Rightarrow> exn option \<times> locals \<times> world" where
  "after_poll t l r =
     (case r of
        (Inl e, w1) \<Rightarrow> (Some e, l, w1)
      | (Inr items, w1) \<Rightarrow>
          (case handle_items items (l\<lparr>attempts := 0, count := count l + 1\<rparr>) w1 of
             (Some e, l2, w2) \<Rightarrow> (Some e, l2, w2)
           | (None, l2, w2) \<Rightarrow> (None, l2, sleep (seconds (time_delay t + 0)) w2)))"

definition exit_error_message :: string where
  "exit_error_message = ''Exiting after five failed login attempts''"

text \<open>The handler of \<open>NotTwoHundredStatusError\<close>.\<close>

definition reauthenticate :: "environment \<Rightarrow> tick \<Rightarrow> locals \<Rightarrow> world \<Rightarrow> exn option \<times> locals \<times> world" where
  "reauthenticate env t l w =
     (if attempts l > MAX_RETRIES then
        (let w1 = save_notified_ids (notified_ids l) w;
             w2 = send_notification exit_error_message w1
         in (Some (Exn SystemExit exit_error_message), l, w2))
      else
        (let interval = auth_time_delay t * 2 ^ attempts l;
             w1 = conn_close w;
             w2 = sleep (seconds interval) w1;
             l1 = l\<lparr>attempts := attempts l + 1\<rparr>
         in case authenticate env w2 of
              (Inl e, w3) \<Rightarrow> (Some e, l1, w3)
            | (Inr token, w3) \<Rightarrow>
                if token = JNull
                then (Some (Exn RuntimeError ''Authentication failed for some reason''), l1, w3)
                else (None, l1, w3)))"

text \<open>One pass of \<open>while True\<close>; \<open>None\<close> means the loop goes on.\<close>

definition quiet_window :: "datetime \<Rightarrow> bool" where
  "quiet_window t = (hour t \<ge> 22 \<or> hour t < 8)"

definition run_iteration :: "environment \<Rightarrow> tick \<Rightarrow> locals \<Rightarrow> world \<Rightarrow> exn option \<times> locals \<times> world" where
  "run_iteration env t l w =
     (if quiet_window (now t) then
        (None, l\<lparr>count := 1\<rparr>, sleep (sleep_duration (now t)) w)
      else
        (case after_poll t l (check_event_availability env w) of
           (Some e, l1, w1) \<Rightarrow>
             if exn_class e = NotTwoHundredStatusError then reauthenticate env t l1 w1
             else (Some e, l1, w1)
         | (None, l1, w1) \<Rightarrow> (None, l1, w1)))"

text \<open>
  The loop over the passes for which the outside world is given; \<open>None\<close> at the end of
  the list means the loop is still running.
\<close>

fun run_loop :: "environment \<Rightarrow> tick list \<Rightarrow> locals \<Rightarrow> world \<Rightarrow> exn option \<times> locals \<times> world" where
  "run_loop env [] l w = (None, l, w)"
| "run_loop env (t # ts) l w =
     (case run_iteration env t l w of
        (None, l1, w1) \<Rightarrow> run_loop env ts l1 w1
      | (Some e, l1, w1) \<Rightarrow> (Some e, l1, w1))"

text \<open>\<open>check_env_variables\<close>: a variable is missing when it is unset or empty.\<close>

definition missing_env_variables :: "environment \<Rightarrow> string list" where
  "missing_env_variables env =
     filter (\<lambda>key. case getenv env key of None \<Rightarrow> True | Some v \<Rightarrow> v = []) REQUIRED_ENV_VARIABLES"

definition check_env_variables :: "environment \<Rightarrow> world \<Rightarrow> exn option \<times> world" where
  "check_env_variables env w =
     (if missing_env_variables env \<noteq> [] then
        (Some (Exn RuntimeError ''Missing required environment variables''),
         fold (\<lambda>key. emit (LogError (''Environment variable '' @ key @ '' is not set'')))
           (missing_env_variables env) w)
      else (None, w))"

text \<open>
  How \<open>run\<close> ends: still in the loop, returned (the process ends with status 0), left
  through \<open>sys.exit\<close> with a message, or left by an exception no handler caught (both
  end the process with status 1).
\<close>

datatype ending = Running | Returned | Exited string | Uncaught exn

fun exit_status :: "ending \<Rightarrow> nat option" where
  "exit_status Running = None"
| "exit_status Returned = Some 0"
| "exit_status (Exited msg) = Some 1"
| "exit_status (Uncaught e) = Some 1"

fun class_name :: "exn_class \<Rightarrow> string" where
  "class_name NotTwoHundredStatusError = ''NotTwoHundredStatusError''"
| "class_name ResponseNotReady = ''ResponseNotReady''"
| "class_name HTTPException = ''HTTPException''"
| "class_name RemoteDisconnected = ''RemoteDisconnected''"
| "class_name GaiError = ''gaierror''"
| "class_name OSError = ''OSError''"
| "class_name JSONDecodeError = ''JSONDecodeError''"
| "class_name UnicodeDecodeError = ''UnicodeDecodeError''"
| "class_name TypeError = ''TypeError''"
| "class_name KeyError = ''KeyError''"
| "class_name IndexError = ''IndexError''"
| "class_name AttributeError = ''AttributeError''"
| "class_name NameError = ''NameError''"
| "class_name UnboundLocalError = ''UnboundLocalError''"
| "class_name RuntimeError = ''RuntimeError''"
| "class_name SystemExit = ''SystemExit''"
| "class_name KeyboardInterrupt = ''KeyboardInterrupt''"

text \<open>
  The two handlers around the body of \<open>run\<close>: \<open>KeyboardInterrupt\<close> closes the connection
  and saves the ledger; any other \<open>Exception\<close> saves the ledger, logs and sends a
  notification; \<open>SystemExit\<close> is caught by neither.
\<close>

definition finish :: "exn option \<times> locals \<times> world \<Rightarrow> ending \<times> world" where
  "finish r =
     (case r of
        (None, l, w) \<Rightarrow> (Running, w)
      | (Some e, l, w) \<Rightarrow>
          if exn_class e = KeyboardInterrupt then
            (Returned, save_notified_ids (notified_ids l) (conn_close w))
          else if is_Exception (exn_class e) then
            (let w1 = save_notified_ids (notified_ids l) w;
                 w2 = emit (LogError (''Cycle '' @ str_int (count l) @ '' Caught exception of type ''
                                       @ class_name (exn_class e))) w1
             in (Returned,
                 send_notification (''Cycle '' @ str_int (count l) @ '' Caught exception '' @ message e) w2))
          else if exn_class e = SystemExit then (Exited (message e), w)
          else (Uncaught e, w))"

text \<open>
  \<open>run\<close>.  When \<open>load_notified_ids\<close> raises, \<open>notified_ids\<close> is not bound yet and the
  handler that runs, which starts by saving it, raises \<open>UnboundLocalError\<close> itself.
\<close>

definition unbound_notified_ids :: exn where
  "unbound_notified_ids =
     Exn UnboundLocalError ''local variable 'notified_ids' referenced before assignment''"

definition run :: "environment \<Rightarrow> tick list \<Rightarrow> world \<Rightarrow> ending \<times> world" where
  "run env ticks w =
     (case load_notified_ids env w of
        Inl e \<Rightarrow> (Uncaught unbound_notified_ids, w)
      | Inr ids \<Rightarrow>
          (let l = \<lparr>count = 1, attempts = 0, notified_ids = ids\<rparr>
           in case check_env_variables env w of
                (Some e, w1) \<Rightarrow> finish (Some e, l, w1)
              | (None, w1) \<Rightarrow>
                  (case authenticate env w1 of
                     (Inl e, w2) \<Rightarrow> finish (Some e, l, w2)
                   | (Inr token, w2) \<Rightarrow>
                       if token = JNull
                       then finish (Some (Exn RuntimeError ''Authentication failed for some reason''), l, w2)
                       else finish (run_loop env ticks l w2))))"

section \<open>Example environments\<close>

text \<open>
  An environment in which every variable is set, the locale's encoding is ASCII (no
  byte above 127 can be decoded), every network call succeeds, the service answers the
  login with a token and every later request with status 200 and an empty list of
  listings.  The examples below vary it field by field.
\<close>

definition reply :: "json \<Rightarrow> response" where
  "reply v =
     \<lparr>status = 200,
      payload = Inr (JObj [(''responseData'', v), (''responseCode'', JInt 100),
                           (''description'', JStr ''OK''), (''clock'', JInt 1700000000)])\<rparr>"

definition calm_env :: environment where
  "calm_env =
     \<lparr>getenv = (\<lambda>k. Some ''x''),
      locale_decode = (\<lambda>bytes. None),
      json_load = decode_string_array,
      connect_outcome = (\<lambda>n. None),
      request_outcome = (\<lambda>n. None),
      response_outcome = (\<lambda>n. Inr (if n = 0 then reply (JStr ''token'') else reply (JArr [])))\<rparr>"

definition no_files :: "string \<Rightarrow> string option" where
  "no_files = (\<lambda>p. None)"


definition undecodable_file :: "string \<Rightarrow> string option" where
  "undecodable_file = (\<lambda>p. if p = NOTIFIED_IDS_FILE then Some [CHR 0xFF, CHR 0xFE] else None)"

definition noon :: tick where
  "noon = \<lparr>now = \<lparr>day = 739000, hour = 12, minute = 0, second = 0, microsecond = 0\<rparr>,
           time_delay = 20, auth_time_delay = 200\<rparr>"

text \<open>Name resolution fails at every attempt to connect.\<close>

definition dns_down_env :: environment where
  "dns_down_env = calm_env\<lparr>connect_outcome := (\<lambda>n. Some (Exn GaiError ''Name or service not known''))\<rparr>"

text \<open>The connection is reset while the request is sent.\<close>

definition reset_env :: environment where
  "reset_env = calm_env\<lparr>request_outcome := (\<lambda>n. Some (Exn OSError ''Connection reset by peer''))\<rparr>"

text \<open>The response is not ready when it is asked for.\<close>

definition not_ready_env :: environment where
  "not_ready_env = calm_env\<lparr>response_outcome := (\<lambda>n. Inl (Exn ResponseNotReady ''Idle''))\<rparr>"


text \<open>
  The service answers the login with status 200 and a body that is valid JSON but no
  object: the number 5, and an array of the four field names.
\<close>

definition number_body_env :: environment where
  "number_body_env =
     calm_env\<lparr>response_outcome := (\<lambda>n. Inr \<lparr>status = 200, payload = Inr (JInt 5)\<rparr>)\<rparr>"

definition names_array_env :: environment where
  "names_array_env =
     calm_env\<lparr>response_outcome :=
       (\<lambda>n. Inr \<lparr>status = 200,
                   payload = Inr (JArr [JStr ''responseData'', JStr ''responseCode'',
                                        JStr ''description'', JStr ''clock''])\<rparr>)\<rparr>"



text \<open>
  After the login, the service answers every poll with two listings, whose compound
  identifiers end in \<open>A\<close> and in \<open>B\<close>.
\<close>

definition two_listings :: json where
  "two_listings = JArr [JObj [(''id'', JStr ''1001@A''), (''amount'', JInt 2)],
                        JObj [(''id'', JStr ''1002@B''), (''amount'', JInt 1)]]"

definition two_listings_env :: environment where
  "two_listings_env =
     calm_env\<lparr>response_outcome :=
       (\<lambda>n. Inr (if n = 0 then reply (JStr ''token'') else reply two_listings))\<rparr>"



text \<open>
  The same, the service answering every poll with the listing \<open>A\<close> itself as
  \<open>responseData\<close>, not with a list.
\<close>

definition bare_listing_env :: environment where
  "bare_listing_env =
     calm_env\<lparr>response_outcome :=
       (\<lambda>n. Inr (if n = 0 then reply (JStr ''token'')
                  else reply (JObj [(''id'', JStr ''1001@A''), (''amount'', JInt 2)])))\<rparr>"

text \<open>
  The service answers the login with a token and every poll with status 403: the
  responses alternate, the first one being the login at start-up.
\<close>

definition forbidden :: response where
  "forbidden = \<lparr>status = 403, payload = Inl (Exn JSONDecodeError ''Expecting value'')\<rparr>"

definition expired_session_env :: environment where
  "expired_session_env =
     calm_env\<lparr>response_outcome := (\<lambda>n. Inr (if even n then reply (JStr ''token'') else forbidden))\<rparr>"

section \<open>Properties of the ledger\<close>

text \<open>
  The ledger holds strings; on strings the comparison of set elements is equality, so
  \<open>set(...)\<close> of a list of strings keeps the first occurrence of each.
\<close>

lemma set_member_JStr: "set_member (JStr x) (map JStr ys) = (x \<in> set ys)"
  by (auto simp: set_member_def)

lemma fold_set_add_JStr:
  "fold set_add (map JStr xs) (map JStr ys) =
     map JStr (fold (\<lambda>x s. if x \<in> set s then s else s @ [x]) xs ys)"
proof (induction xs arbitrary: ys)
  case Nil
  show ?case by simp
next
  case (Cons x xs)
  have "set_add (JStr x) (map JStr ys) = map JStr (if x \<in> set ys then ys else ys @ [x])"
    by (simp add: set_add_def set_member_JStr)
  with Cons.IH [of "if x \<in> set ys then ys else ys @ [x]"] show ?case by simp
qed

lemma set_fold_insert:
  "set (fold (\<lambda>x s. if x \<in> set s then s else s @ [x]) xs ys) = set ys \<union> set xs"
  by (induction xs arbitrary: ys) auto

lemma distinct_fold_insert:
  "distinct ys \<Longrightarrow> distinct (fold (\<lambda>x s. if x \<in> set s then s else s @ [x]) xs ys)"
  by (induction xs arbitrary: ys) auto

lemma fold_insert_distinct_id:
  "distinct (ys @ xs) \<Longrightarrow> fold (\<lambda>x s. if x \<in> set s then s else s @ [x]) xs ys = ys @ xs"
  by (induction xs arbitrary: ys) auto

lemma py_set_strings:
  "py_set (JArr (map JStr xs)) = Inr (map JStr (fold (\<lambda>x s. if x \<in> set s then s else s @ [x]) xs []))"
proof -
  have "list_all hashable (map JStr xs)" by (induction xs) auto
  then show ?thesis
    using fold_set_add_JStr [of xs "[]"] by (simp add: py_set_def)
qed

lemma files_save: "files (save_notified_ids ids w) NOTIFIED_IDS_FILE = Some (json_dumps (JArr ids))"
  by (simp add: save_notified_ids_def emit_def)

text \<open>What \<open>json.dump\<close> writes for a list of strings is ASCII, so it is read back as it is.\<close>

lemma hex_digit_ascii: "k < 16 \<Longrightarrow> is_ascii (''0123456789abcdef'' ! k)"
proof -
  assume "k < 16"
  then consider "k = 0" | "k = 1" | "k = 2" | "k = 3" | "k = 4" | "k = 5" | "k = 6" | "k = 7"
    | "k = 8" | "k = 9" | "k = 10" | "k = 11" | "k = 12" | "k = 13" | "k = 14" | "k = 15"
    by atomize_elim arith
  then show ?thesis
    by cases (simp_all add: is_ascii_def)
qed

lemma encode_char_ascii: "list_all is_ascii (encode_char c)"
proof (cases "32 \<le> (of_char c :: nat) \<and> (of_char c :: nat) \<le> 126")
  case True
  then show ?thesis by (simp add: encode_char_def is_ascii_def)
next
  case False
  have "is_ascii (''0123456789abcdef'' ! (of_char c div 16 mod 16))"
    by (rule hex_digit_ascii) simp
  moreover have "is_ascii (''0123456789abcdef'' ! (of_char c mod 16))"
    by (rule hex_digit_ascii) simp
  ultimately have "list_all is_ascii (hex2 (of_char c))" by (simp add: hex2_def)
  then show ?thesis by (simp add: encode_char_def is_ascii_def)
qed

lemma encode_basestring_ascii_is_ascii: "list_all is_ascii (encode_basestring_ascii s)"
proof -
  have "list_all is_ascii (concat (map encode_char s))"
    by (induction s) (simp_all add: encode_char_ascii)
  then show ?thesis by (simp add: encode_basestring_ascii_def is_ascii_def)
qed

lemma join_encoded_ascii:
  "list_all is_ascii (join_with '', '' (map encode_basestring_ascii xs))"
proof (induction xs rule: induct_list012)
  case 1
  show ?case by simp
next
  case (2 x)
  show ?case by (simp add: encode_basestring_ascii_is_ascii)
next
  case (3 x y zs)
  have sep: "list_all is_ascii '', ''" by (simp add: is_ascii_def)
  show ?case
    using 3 encode_basestring_ascii_is_ascii [of x] sep by simp
qed

lemma read_text_dumps:
  "read_text env (json_dumps (JArr (map JStr xs))) = Some (json_dumps (JArr (map JStr xs)))"
proof -
  have brackets: "is_ascii (CHR ''['')" "is_ascii (CHR '']'')"
    by (simp_all add: is_ascii_def)
  have "list_all is_ascii (json_dumps (JArr (map JStr xs)))"
    using join_encoded_ascii [of xs] brackets by (simp add: comp_def)
  then show ?thesis by (simp only: read_text_def if_True)
qed

lemma load_after_save:
  assumes "json_load env (json_dumps (JArr (map JStr xs))) = Some (JArr (map JStr xs))"
  shows "load_notified_ids env (save_notified_ids (map JStr xs) w) =
           Inr (map JStr (fold (\<lambda>x s. if x \<in> set s then s else s @ [x]) xs []))"
  unfolding load_notified_ids_def files_save
  by (simp only: read_text_dumps assms option.case py_set_strings)

subsection \<open>The decoder inverts the encoder on arrays of strings\<close>

lemma hexval_digit: "k < 16 \<Longrightarrow> hexval (''0123456789abcdef'' ! k) = Some k"
proof -
  assume "k < 16"
  then consider "k = 0" | "k = 1" | "k = 2" | "k = 3" | "k = 4" | "k = 5" | "k = 6" | "k = 7"
    | "k = 8" | "k = 9" | "k = 10" | "k = 11" | "k = 12" | "k = 13" | "k = 14" | "k = 15"
    by atomize_elim arith
  then show ?thesis
    by cases (simp_all add: hexval_def)
qed

lemma decode_hex2:
  "n < 256 \<Longrightarrow>
   decode_uXXXX (CHR ''0'') (CHR ''0'') (''0123456789abcdef'' ! (n div 16 mod 16))
     (''0123456789abcdef'' ! (n mod 16)) = Some (char_of n)"
proof -
  assume n: "n < 256"
  have a: "hexval (''0123456789abcdef'' ! (n div 16 mod 16)) = Some (n div 16 mod 16)"
    by (rule hexval_digit) simp
  have b: "hexval (''0123456789abcdef'' ! (n mod 16)) = Some (n mod 16)"
    by (rule hexval_digit) simp
  have z: "hexval (CHR ''0'') = Some 0" by (simp add: hexval_def)
  have "n div 16 mod 16 = n div 16" using n by simp
  then have "n div 16 mod 16 * 16 + n mod 16 = n" by simp
  then show ?thesis unfolding decode_uXXXX_def a b z by simp
qed

lemma scan_string_encode_char:
  "scan_string (encode_char c @ t) = cons_fst c (scan_string t)"
proof -
  have lt: "(of_char c :: nat) < 256" by simp
  consider (quote) "c = CHR 0x22" | (bs) "c = CHR 0x5C" | (b) "c = CHR 0x08" | (f) "c = CHR 0x0C"
    | (n) "c = CHR 0x0A" | (r) "c = CHR 0x0D" | (t) "c = CHR 0x09"
    | (plain) "c \<noteq> CHR 0x22" "c \<noteq> CHR 0x5C" "32 \<le> (of_char c :: nat)" "(of_char c :: nat) \<le> 126"
    | (other) "c \<noteq> CHR 0x22" "c \<noteq> CHR 0x5C" "c \<noteq> CHR 0x08" "c \<noteq> CHR 0x0C" "c \<noteq> CHR 0x0A"
        "c \<noteq> CHR 0x0D" "c \<noteq> CHR 0x09" "\<not> (32 \<le> (of_char c :: nat) \<and> (of_char c :: nat) \<le> 126)"
    by blast
  then show ?thesis
  proof cases
    case plain
    then show ?thesis by (auto simp: encode_char_def)
  next
    case other
    then have e: "encode_char c = [CHR 0x5C, CHR ''u'', CHR ''0'', CHR ''0'',
        ''0123456789abcdef'' ! (of_char c div 16 mod 16), ''0123456789abcdef'' ! (of_char c mod 16)]"
      by (simp add: encode_char_def hex2_def)
    show ?thesis
      unfolding e using decode_hex2 [OF lt] by simp
  qed (simp_all add: encode_char_def unescape_def)
qed

lemma scan_string_encoded:
  "scan_string (concat (map encode_char s) @ CHR 0x22 # t) = Some (s, t)"
  by (induction s) (simp_all add: scan_string_encode_char cons_fst_def)


lemma skip_ws_quote: "skip_ws (CHR 0x22 # t) = CHR 0x22 # t"
  by (simp add: skip_ws_def is_ws_def)

lemma skip_ws_space_quote: "skip_ws (CHR '' '' # CHR 0x22 # t) = CHR 0x22 # t"
  by (simp add: skip_ws_def is_ws_def)

lemma skip_ws_comma: "skip_ws (CHR '','' # t) = CHR '','' # t"
  by (simp add: skip_ws_def is_ws_def)

lemma skip_ws_bracket: "skip_ws (CHR '']'' # t) = CHR '']'' # t"
  by (simp add: skip_ws_def is_ws_def)

lemma skip_ws_open: "skip_ws (CHR ''['' # t) = CHR ''['' # t"
  by (simp add: skip_ws_def is_ws_def)

lemma skip_ws_Nil: "skip_ws [] = []"
  by (simp add: skip_ws_def)

lemma encoded_Cons: "encode_basestring_ascii x @ t = CHR 0x22 # concat (map encode_char x) @ CHR 0x22 # t"
  by (simp add: encode_basestring_ascii_def)

lemma join_encoded_Cons:
  "\<exists>u. join_with sep (map encode_basestring_ascii (y # ys)) @ t = CHR 0x22 # u"
  by (cases ys) (simp_all add: encode_basestring_ascii_def)

lemma scan_elements_encoded:
  "length xs < n \<Longrightarrow>
   scan_elements n (join_with '', '' (map encode_basestring_ascii (x # xs)) @ '']'') = Some (x # xs)"
proof (induction xs arbitrary: x n)
  case Nil
  then obtain m where n: "n = Suc m" by (cases n) auto
  show ?case
    by (simp add: n encoded_Cons scan_string_encoded skip_ws_bracket skip_ws_Nil)
next
  case (Cons y ys)
  then obtain m where n: "n = Suc m" and m: "length ys < m" by (cases n) auto
  obtain u where u: "join_with '', '' (map encode_basestring_ascii (y # ys)) @ '']'' = CHR 0x22 # u"
    using join_encoded_Cons by blast
  have ih: "scan_elements m (CHR 0x22 # u) = Some (y # ys)"
    using Cons.IH [OF m, of y] u by simp
  have body_eq: "join_with '', '' (map encode_basestring_ascii (x # y # ys)) @ '']''
      = CHR 0x22 # concat (map encode_char x) @ CHR 0x22 # CHR '','' # CHR '' '' # CHR 0x22 # u"
    using u by (simp add: encode_basestring_ascii_def)
  show ?case
    unfolding body_eq n
    by (simp add: scan_string_encoded skip_ws_comma skip_ws_space_quote ih)
qed

lemma length_join_encoded:
  "length xs \<le> length (join_with sep (map encode_basestring_ascii xs))"
proof (induction xs rule: induct_list012)
  case 1
  show ?case by simp
next
  case (2 x)
  show ?case by (simp add: encode_basestring_ascii_def)
next
  case (3 x y zs)
  then show ?case by (simp add: encode_basestring_ascii_def)
qed

lemma decode_string_array_dumps:
  "decode_string_array (json_dumps (JArr (map JStr xs))) = Some (JArr (map JStr xs))"
proof (cases xs)
  case Nil
  then show ?thesis
    by (simp add: decode_string_array_def skip_ws_open skip_ws_bracket skip_ws_Nil)
next
  case (Cons y ys)
  let ?body = "join_with '', '' (map encode_basestring_ascii (y # ys)) @ '']''"
  have dumps: "json_dumps (JArr (map JStr xs)) = CHR ''['' # ?body"
    by (simp add: Cons comp_def)
  obtain u where u: "?body = CHR 0x22 # u"
    using join_encoded_Cons by blast
  have "length ys < length (CHR ''['' # ?body)"
    using length_join_encoded [of "y # ys" "'', ''"] by simp
  then have "scan_elements (length (CHR ''['' # ?body)) ?body = Some (y # ys)"
    by (rule scan_elements_encoded)
  then have se: "scan_elements (length (CHR ''['' # CHR 0x22 # u)) (CHR 0x22 # u) = Some (y # ys)"
    unfolding u .
  show ?thesis
    unfolding dumps u decode_string_array_def
    using se by (simp add: skip_ws_open skip_ws_quote Cons)
qed

lemma calm_env_json_load: "json_load calm_env = decode_string_array"
  by (simp add: calm_env_def)

subsection \<open>Round trip through the persisted file\<close>

text \<open>
  C5.  For every set of strings, enumerated in any order as the list \<open>xs\<close> that
  \<open>list(notified_ids)\<close> yields: when the ledger is saved and then loaded, the load
  returns (it does not raise) a set with exactly the elements of \<open>xs\<close>.  The JSON
  decoder belongs to the environment; the theorem asks of it that it decodes the text
  the encoder wrote for \<open>xs\<close> back to the array of those strings.
\<close>

theorem save_load_round_trip:
  assumes "json_load env (json_dumps (JArr (map JStr xs))) = Some (JArr (map JStr xs))"
  shows "\<exists>ys. load_notified_ids env (save_notified_ids (map JStr xs) w) = Inr ys
            \<and> set ys = JStr ` set xs \<and> distinct ys"
proof -
  let ?zs = "fold (\<lambda>x s. if x \<in> set s then s else s @ [x]) xs []"
  have "load_notified_ids env (save_notified_ids (map JStr xs) w) = Inr (map JStr ?zs)"
    using assms by (rule load_after_save)
  moreover have "set (map JStr ?zs) = JStr ` set xs"
    using set_fold_insert [of xs "[]"] by simp
  moreover have "distinct (map JStr ?zs)"
    using distinct_fold_insert [of "[]" xs] by (simp add: distinct_map inj_on_def)
  ultimately show ?thesis by blast
qed

theorem save_load_round_trip_witness:
  "json_load calm_env (json_dumps (JArr (map JStr [''A'', ''B''])))
     = Some (JArr (map JStr [''A'', ''B'']))
   \<and> (\<exists>ys. load_notified_ids calm_env
              (save_notified_ids (map JStr [''A'', ''B'']) (init_world (\<lambda>p. None))) = Inr ys
          \<and> set ys = JStr ` set [''A'', ''B''] \<and> distinct ys)"
proof -
  have h: "json_load calm_env (json_dumps (JArr (map JStr [''A'', ''B''])))
             = Some (JArr (map JStr [''A'', ''B'']))"
    unfolding calm_env_json_load by (rule decode_string_array_dumps)
  from h save_load_round_trip [OF h, of "init_world (\<lambda>p. None)"] show ?thesis by blast
qed

text \<open>
  With the decoder of the persisted form the round trip holds for every list of
  strings, whatever characters they hold.
\<close>

lemma save_load_round_trip_decoder:
  assumes "json_load env = decode_string_array"
  shows "load_notified_ids env (save_notified_ids (map JStr xs) w) =
           Inr (map JStr (fold (\<lambda>x s. if x \<in> set s then s else s @ [x]) xs []))"
  by (rule load_after_save) (simp only: assms decode_string_array_dumps)

subsection \<open>A missing or corrupt file\<close>



text \<open>
  The claim as stated covers every file that is not valid JSON.  A file whose bytes
  are not text in the locale's encoding (here the bytes FF FE, which neither ASCII
  nor UTF-8 decodes) makes \<open>json.load\<close> raise \<open>UnicodeDecodeError\<close> while it reads, and
  the handler names \<open>JSONDecodeError\<close> only: \<open>load_notified_ids\<close> raises.
\<close>

theorem load_undecodable_file_counterexample:
  "files (init_world undecodable_file) NOTIFIED_IDS_FILE = Some [CHR 0xFF, CHR 0xFE]
   \<and> read_text calm_env [CHR 0xFF, CHR 0xFE] = None
   \<and> load_notified_ids calm_env (init_world undecodable_file)
       = Inl (Exn UnicodeDecodeError ''codec cannot decode byte'')"
  by (simp add: load_notified_ids_def read_text_def is_ascii_def calm_env_def init_world_def
        undecodable_file_def)

section \<open>Properties of the connection\<close>

text \<open>The trace only grows, and each primitive adds its own event.\<close>

lemma conn_connect_fails:
  "connect_outcome env (connects w) = Some e \<Longrightarrow>
   conn_connect env w = (Inl e, w\<lparr>connects := connects w + 1, trace := trace w @ [Connect]\<rparr>)"
  by (simp add: conn_connect_def emit_def)

lemma conn_connect_succeeds:
  "connect_outcome env (connects w) = None \<Longrightarrow>
   conn_connect env w = (Inr (), w\<lparr>connects := connects w + 1, trace := trace w @ [Connect], sock := True\<rparr>)"
  by (simp add: conn_connect_def emit_def)

lemma trace_emit: "trace (emit e w) = trace w @ [e]"
  by (simp add: emit_def)

lemma trace_conn_connect: "trace (snd (conn_connect env w)) = trace w @ [Connect]"
  by (simp add: conn_connect_def emit_def Let_def split: option.splits)

lemma trace_conn_close: "trace (conn_close w) = trace w @ [Close]"
  by (simp add: conn_close_def emit_def)

lemma trace_sleep: "trace (sleep d w) = trace w @ [Sleep d]"
  by (simp add: sleep_def emit_def)

lemma sock_conn_connect: "conn_connect env w = (Inr u, w1) \<Longrightarrow> sock w1"
  by (auto simp: conn_connect_def emit_def Let_def split: option.splits)

lemma sock_sleep: "sock (sleep d w) = sock w"
  by (simp add: sleep_def emit_def)

lemma ensure_from_prefix:
  "prefix (trace w) (trace (snd (ensure_connection_from env r w)))"
proof (induction env r w rule: ensure_connection_from.induct)
  case (1 env retries w)
  show ?case
  proof (cases "retries < MAX_RETRIES")
    case False
    then show ?thesis
      by (simp add: ensure_connection_from.simps [of env retries w] trace_emit)
  next
    case True
    obtain r1 w1 where c1: "conn_connect env w = (r1, w1)" by (cases "conn_connect env w")
    have t1: "trace w1 = trace w @ [Connect]"
      using trace_conn_connect [of env w] c1 by simp
    obtain r2 w2 where c2: "conn_connect env (conn_close w1) = (r2, w2)"
      by (cases "conn_connect env (conn_close w1)")
    have t2: "trace w2 = trace w @ [Connect, Close, Connect]"
      using trace_conn_connect [of env "conn_close w1"] c2 t1 by (simp add: trace_conn_close)
    show ?thesis
    proof (cases r1)
      case (Inr u)
      then show ?thesis
        using True c1 t1 by (simp add: ensure_connection_from.simps [of env retries w])
    next
      case (Inl e)
      show ?thesis
      proof (cases "exn_class e \<noteq> GaiError \<and> (is_HTTPException (exn_class e) \<or> is_OSError (exn_class e))")
        case False
        then show ?thesis
          using True c1 t1 Inl by (auto simp: ensure_connection_from.simps [of env retries w])
      next
        case handler: True
        show ?thesis
        proof (cases r2)
          case (Inl e2)
          then show ?thesis
            using True c1 Inl handler c2 t2 \<open>r1 = Inl e\<close>
            by (auto simp: ensure_connection_from.simps [of env retries w])
        next
          case (Inr u)
          let ?w3 = "sleep (seconds (BASE_DELAY * 2 ^ (retries + 1))) w2"
          have ih: "prefix (trace ?w3) (trace (snd (ensure_connection_from env (retries + 1) ?w3)))"
            using "1.IH" [OF True c1 [symmetric] \<open>r1 = Inl e\<close>] handler c2 [symmetric] Inr by blast
          have "prefix (trace w) (trace ?w3)"
            by (simp add: trace_sleep t2)
          then have "prefix (trace w) (trace (snd (ensure_connection_from env (retries + 1) ?w3)))"
            using ih by (rule prefix_order.trans)
          then show ?thesis
            using True c1 \<open>r1 = Inl e\<close> handler c2 Inr
            by (auto simp: ensure_connection_from.simps [of env retries w])
        qed
      qed
    qed
  qed
qed

lemma ensure_from_sock:
  "ensure_connection_from env r w = (Inr u, w') \<Longrightarrow> r < MAX_RETRIES \<or> sock w \<Longrightarrow> sock w'"
proof (induction env r w arbitrary: u w' rule: ensure_connection_from.induct)
  case (1 env retries w)
  show ?case
  proof (cases "retries < MAX_RETRIES")
    case False
    then show ?thesis
      using "1.prems" by (auto simp: ensure_connection_from.simps [of env retries w] emit_def)
  next
    case True
    obtain r1 w1 where c1: "conn_connect env w = (r1, w1)" by (cases "conn_connect env w")
    obtain r2 w2 where c2: "conn_connect env (conn_close w1) = (r2, w2)"
      by (cases "conn_connect env (conn_close w1)")
    show ?thesis
    proof (cases r1)
      case (Inr v)
      then show ?thesis
        using True c1 "1.prems"(1) sock_conn_connect [of env w v w1]
        by (simp add: ensure_connection_from.simps [of env retries w])
    next
      case (Inl e)
      show ?thesis
      proof (cases "exn_class e \<noteq> GaiError \<and> (is_HTTPException (exn_class e) \<or> is_OSError (exn_class e))")
        case False
        then show ?thesis
          using True c1 Inl "1.prems"(1)
          by (auto simp: ensure_connection_from.simps [of env retries w] split: if_splits)
      next
        case handler: True
        show ?thesis
        proof (cases r2)
          case (Inl e2)
          then show ?thesis
            using True c1 handler c2 \<open>r1 = Inl e\<close> "1.prems"(1)
            by (auto simp: ensure_connection_from.simps [of env retries w])
        next
          case (Inr v)
          let ?w3 = "sleep (seconds (BASE_DELAY * 2 ^ (retries + 1))) w2"
          have s3: "sock ?w3"
            using sock_conn_connect [of env "conn_close w1" v w2] c2 Inr by (simp add: sock_sleep)
          have eq: "ensure_connection_from env (retries + 1) ?w3 = (Inr u, w')"
            using True c1 \<open>r1 = Inl e\<close> handler c2 Inr "1.prems"(1)
            by (auto simp: ensure_connection_from.simps [of env retries w])
          show ?thesis
            using "1.IH" [OF True c1 [symmetric] \<open>r1 = Inl e\<close> _ _ c2 [symmetric] Inr eq] handler s3
            by blast
        qed
      qed
    qed
  qed
qed

lemma ensure_connection_sock: "ensure_connection env w = (Inr u, w1) \<Longrightarrow> sock w1"
  using ensure_from_sock [of env 0 w u w1] by (simp add: ensure_connection_def MAX_RETRIES_def)

lemma ensure_connection_first_event:
  "\<exists>evs. trace (snd (ensure_connection env w)) = trace w @ Connect # evs"
proof -
  obtain r1 w1 where c1: "conn_connect env w = (r1, w1)" by (cases "conn_connect env w")
  have t1: "trace w1 = trace w @ [Connect]"
    using trace_conn_connect [of env w] c1 by simp
  obtain r2 w2 where c2: "conn_connect env (conn_close w1) = (r2, w2)"
    by (cases "conn_connect env (conn_close w1)")
  have t2: "trace w2 = trace w @ [Connect, Close, Connect]"
    using trace_conn_connect [of env "conn_close w1"] c2 t1 by (simp add: trace_conn_close)
  let ?w3 = "sleep (seconds (BASE_DELAY * 2 ^ (0 + 1))) w2"
  obtain evs where "trace (snd (ensure_connection_from env (0 + 1) ?w3)) = trace ?w3 @ evs"
    using ensure_from_prefix [of ?w3 env "0 + 1"] by (auto simp: prefix_def)
  then have t3: "trace (snd (ensure_connection_from env (0 + 1) ?w3))
      = trace w @ Connect # [Close, Connect, Sleep (seconds (BASE_DELAY * 2 ^ (0 + 1)))] @ evs"
    by (simp add: trace_sleep t2)
  show ?thesis
    unfolding ensure_connection_def
    apply (subst ensure_connection_from.simps)
    using c1 t1 c2 t2 t3
    by (auto simp: MAX_RETRIES_def split: sum.splits)
qed

lemma trace_send_request:
  "trace (snd (send_request env m u b w)) = trace w @ [Request m u b]"
  by (simp add: send_request_def emit_def Let_def split: option.splits)

lemma trace_conn_request:
  "prefix (trace w) (trace (snd (conn_request env m u b w)))"
proof (cases "sock w")
  case True
  then show ?thesis by (simp add: conn_request_def trace_send_request)
next
  case False
  obtain r1 w1 where c1: "conn_connect env w = (r1, w1)" by (cases "conn_connect env w")
  have t1: "trace w1 = trace w @ [Connect]"
    using trace_conn_connect [of env w] c1 by simp
  show ?thesis
    using False c1 t1 by (cases r1) (simp_all add: conn_request_def trace_send_request)
qed

lemma trace_conn_getresponse: "trace (snd (conn_getresponse env w)) = trace w"
  by (simp add: conn_getresponse_def)

lemma fetch_items_prefix: "prefix (trace w) (trace (snd (fetch_items env w)))"
proof -
  obtain r1 w1 where c1: "conn_request env ''GET'' (listings_url env) '''' w = (r1, w1)"
    by (cases "conn_request env ''GET'' (listings_url env) '''' w")
  have p1: "prefix (trace w) (trace w1)"
    using trace_conn_request [of w env "''GET''" "listings_url env" "''''"] c1 by simp
  obtain r2 w2 where c2: "conn_getresponse env w1 = (r2, w2)" by (cases "conn_getresponse env w1")
  have t2: "trace w2 = trace w1" using trace_conn_getresponse [of env w1] c2 by simp
  show ?thesis
    using c1 c2 p1 t2 by (auto simp: fetch_items_def split: sum.splits)
qed

lemma poll_connection_prefix: "prefix (trace w) (trace (snd (poll_connection env w)))"
proof -
  obtain r1 w1 where c1: "fetch_items env w = (r1, w1)" by (cases "fetch_items env w")
  have p1: "prefix (trace w) (trace w1)" using fetch_items_prefix [of w env] c1 by simp
  then have p2: "prefix (trace w) (trace (conn_close w1))"
    by (simp add: trace_conn_close)
  show ?thesis
    using c1 p1 p2 by (auto simp: poll_connection_def split: sum.splits)
qed

lemma check_event_availability_first_event:
  "\<exists>evs. trace (snd (check_event_availability env w)) = trace w @ Connect # evs"
proof -
  obtain r1 w1 where c1: "ensure_connection env w = (r1, w1)" by (cases "ensure_connection env w")
  obtain evs where t1: "trace w1 = trace w @ Connect # evs"
    using ensure_connection_first_event [of env w] c1 by auto
  obtain evs2 where t2: "trace (snd (poll_connection env w1)) = trace w1 @ evs2"
    using poll_connection_prefix [of w1 env] by (auto simp: prefix_def)
  show ?thesis
    using c1 t1 t2 by (cases r1) (simp_all add: check_event_availability_def)
qed

subsection \<open>Connecting when every attempt fails\<close>

text \<open>
  C8.  The claim: when every attempt to connect fails with a name-resolution or
  transport exception, \<open>_ensure_connection\<close> retries up to the maximum, sleeps
  \<open>BASE_DELAY * 2 ^ retries\<close> between attempts, logs an error and returns normally.
  The code does not: in every such run it raises after the first failed attempt, or
  after the second (the reconnection inside the handler), and it never sleeps.
  A name-resolution failure surfaces as the \<open>NameError\<close> of the handler's log message.
\<close>

theorem ensure_connection_raises:
  assumes "\<forall>n. \<exists>e. connect_outcome env n = Some e
             \<and> (is_OSError (exn_class e) \<or> is_HTTPException (exn_class e))"
  shows "\<exists>e w'. ensure_connection env w = (Inl e, w')
           \<and> (trace w' = trace w @ [Connect] \<or> trace w' = trace w @ [Connect, Close, Connect])"
proof -
  obtain e1 where e1: "connect_outcome env (connects w) = Some e1"
    and c1: "is_OSError (exn_class e1) \<or> is_HTTPException (exn_class e1)"
    using assms by blast
  obtain e2 where e2: "connect_outcome env (connects w + 1) = Some e2"
    using assms by blast
  let ?w1 = "w\<lparr>connects := connects w + 1, trace := trace w @ [Connect]\<rparr>"
  have first: "conn_connect env w = (Inl e1, ?w1)"
    using e1 by (rule conn_connect_fails)
  have second: "conn_connect env (conn_close ?w1) =
      (Inl e2, (conn_close ?w1)\<lparr>connects := connects w + 2, trace := trace w @ [Connect, Close, Connect]\<rparr>)"
    using conn_connect_fails [of env "conn_close ?w1" e2] e2
    by (simp add: conn_close_def emit_def)
  show ?thesis
  proof (cases "exn_class e1 = GaiError")
    case True
    then show ?thesis
      by (simp add: ensure_connection_def ensure_connection_from.simps [of env 0] MAX_RETRIES_def first)
  next
    case False
    then show ?thesis
      using c1 first second
      by (simp add: ensure_connection_def ensure_connection_from.simps [of env 0] MAX_RETRIES_def)
  qed
qed

theorem ensure_connection_raises_witness:
  "(\<forall>n. \<exists>e. connect_outcome dns_down_env n = Some e
             \<and> (is_OSError (exn_class e) \<or> is_HTTPException (exn_class e)))
   \<and> (\<exists>e w'. ensure_connection dns_down_env (init_world no_files) = (Inl e, w')
           \<and> (trace w' = trace (init_world no_files) @ [Connect]
               \<or> trace w' = trace (init_world no_files) @ [Connect, Close, Connect]))
   \<and> fst (ensure_connection dns_down_env (init_world no_files))
        = Inl (Exn NameError ''name 'BASE_DELAY' is not defined'')"
proof -
  have h: "\<forall>n. \<exists>e. connect_outcome dns_down_env n = Some e
             \<and> (is_OSError (exn_class e) \<or> is_HTTPException (exn_class e))"
    by (simp add: dns_down_env_def calm_env_def)
  have v: "fst (ensure_connection dns_down_env (init_world no_files))
        = Inl (Exn NameError ''name 'BASE_DELAY' is not defined'')"
    by (simp add: ensure_connection_def ensure_connection_from.simps [of _ 0] MAX_RETRIES_def
          conn_connect_def dns_down_env_def calm_env_def init_world_def emit_def)
  from h v ensure_connection_raises [OF h, of "init_world no_files"] show ?thesis by blast
qed

subsection \<open>Exceptions during the poll\<close>

text \<open>
  C9, as amended.  An exception of class \<open>http.client.HTTPException\<close> raised while
  \<open>check_event_availability\<close> sends its request or reads the response does not reach
  the caller: the call returns the empty list; the connection is left as it is for
  \<open>ResponseNotReady\<close> and closed for every other such exception; and the next call
  starts with an attempt to connect.
\<close>

theorem http_exception_does_not_propagate:
  assumes "ensure_connection env w = (Inr (), w1)"
      and "fetch_items env w1 = (Inl e, w2)"
      and "is_HTTPException (exn_class e)"
  shows "check_event_availability env w =
           (Inr (JArr []), if exn_class e = ResponseNotReady then w2 else conn_close w2)
         \<and> (\<exists>evs. trace (snd (check_event_availability env (snd (check_event_availability env w))))
                    = trace (snd (check_event_availability env w)) @ Connect # evs)"
proof -
  have "sock w1" using assms(1) by (rule ensure_connection_sock)
  then have "check_event_availability env w =
           (Inr (JArr []), if exn_class e = ResponseNotReady then w2 else conn_close w2)"
    using assms by (simp add: check_event_availability_def poll_connection_def)
  then show ?thesis
    using check_event_availability_first_event by blast
qed

theorem http_exception_does_not_propagate_witness:
  "ensure_connection not_ready_env (init_world no_files)
     = (Inr (), (init_world no_files)\<lparr>sock := True, trace := [Connect], connects := 1\<rparr>)
   \<and> fetch_items not_ready_env ((init_world no_files)\<lparr>sock := True, trace := [Connect], connects := 1\<rparr>)
     = (Inl (Exn ResponseNotReady ''Idle''),
        (init_world no_files)\<lparr>sock := True,
           trace := [Connect, Request ''GET'' (listings_url not_ready_env) ''''],
           connects := 1, requests := 1, responses := 1\<rparr>)
   \<and> is_HTTPException (exn_class (Exn ResponseNotReady ''Idle''))
   \<and> fst (check_event_availability not_ready_env (init_world no_files)) = Inr (JArr [])"
proof -
  let ?w1 = "(init_world no_files)\<lparr>sock := True, trace := [Connect], connects := 1\<rparr>"
  let ?w2 = "(init_world no_files)\<lparr>sock := True,
           trace := [Connect, Request ''GET'' (listings_url not_ready_env) ''''],
           connects := 1, requests := 1, responses := 1\<rparr>"
  have a: "ensure_connection not_ready_env (init_world no_files) = (Inr (), ?w1)"
    by (simp add: ensure_connection_def ensure_connection_from.simps [of _ 0] MAX_RETRIES_def
          conn_connect_def not_ready_env_def calm_env_def init_world_def emit_def)
  have b: "fetch_items not_ready_env ?w1 = (Inl (Exn ResponseNotReady ''Idle''), ?w2)"
    by (simp add: fetch_items_def conn_request_def send_request_def conn_getresponse_def
          not_ready_env_def calm_env_def init_world_def emit_def)
  have c: "is_HTTPException (exn_class (Exn ResponseNotReady ''Idle''))" by simp
  from a b c http_exception_does_not_propagate [OF a b c] show ?thesis by simp
qed

text \<open>
  The claim as stated covers every connection-level exception.  A connection reset
  while the request is sent is an \<open>OSError\<close>, which neither handler of the poll
  catches: it reaches the caller.
\<close>

theorem os_error_propagates_counterexample:
  "fst (check_event_availability reset_env (init_world no_files))
     = Inl (Exn OSError ''Connection reset by peer'')"
  by (simp add: check_event_availability_def ensure_connection_def
        ensure_connection_from.simps [of _ 0] MAX_RETRIES_def poll_connection_def fetch_items_def
        conn_request_def send_request_def conn_connect_def reset_env_def calm_env_def
        init_world_def emit_def)

subsection \<open>A poll without a socket\<close>



section \<open>Properties of authentication\<close>






section \<open>Properties of the control loop\<close>

subsection \<open>The quiet window\<close>

lemma time_of_day_8: "time_of_day \<lparr>day = d, hour = 8, minute = 0, second = 0, microsecond = 0\<rparr> = seconds (8 * 3600)"
  by (simp add: time_of_day_def)




subsection \<open>New listings\<close>

text \<open>
  For a list of listings the loop body fails at once: \<open>items['id']\<close> subscripts the
  list with a string.
\<close>

lemma handle_items_list:
  "xs \<noteq> [] \<Longrightarrow> handle_items (JArr xs) l w
     = (Some (Exn TypeError ''list indices must be integers or slices, not str''), l, w)"
  by (cases xs) (simp_all add: handle_items_def)

lemmas client_defs =
  run_def load_notified_ids_def check_env_variables_def missing_env_variables_def
  REQUIRED_ENV_VARIABLES_def authenticate_def ensure_connection_def MAX_RETRIES_def
  conn_connect_def conn_request_def send_request_def conn_getresponse_def conn_close_def
  validate_auth_response_def required_keys_def run_iteration_def quiet_window_def
  after_poll_def check_event_availability_def poll_connection_def fetch_items_def
  handle_items_def finish_def save_notified_ids_def send_notification_def sleep_def emit_def
  notifications_def init_world_def reply_def

text \<open>
  C1.  The claim: a poll that returns the listings \<open>A\<close> and \<open>B\<close> with an empty ledger
  sends two notifications, in order, and leaves the ledger \<open>{A, B}\<close>.  The code, on
  that input: no notification for either listing is sent and the ledger stays empty;
  the \<open>TypeError\<close> reaches the outer handler of \<open>run\<close>, which saves the empty ledger,
  sends one notification about the exception, and \<open>run\<close> returns.
\<close>

theorem two_new_listings_end_the_run:
  "fst (run two_listings_env [noon] (init_world no_files)) = Returned
   \<and> trace (snd (run two_listings_env [noon] (init_world no_files)))
       = [Connect,
          Request ''POST'' (login_url two_listings_env) (login_body two_listings_env),
          Connect,
          Request ''GET'' (listings_url two_listings_env) '''',
          Save (json_dumps (JArr [])),
          LogError ''Cycle 2 Caught exception of type TypeError'',
          Notify ''Cycle 2 Caught exception list indices must be integers or slices, not str'']
   \<and> files (snd (run two_listings_env [noon] (init_world no_files))) NOTIFIED_IDS_FILE
       = Some (json_dumps (JArr []))"
  by (simp add: client_defs ensure_connection_from.simps [of _ 0] two_listings_env_def
        two_listings_def calm_env_def no_files_def noon_def str_int_def digits.simps [of 2]
        login_url_def login_body_def listings_url_def)

subsection \<open>A listing already in the ledger\<close>



subsection \<open>Backoff after a refused poll\<close>

lemma ensure_connection_ok:
  "connect_outcome env (connects w) = None \<Longrightarrow>
   ensure_connection env w = (Inr (), w\<lparr>connects := connects w + 1, trace := trace w @ [Connect], sock := True\<rparr>)"
  by (simp add: ensure_connection_def ensure_connection_from.simps [of env 0] MAX_RETRIES_def
        conn_connect_succeeds)

lemma poll_not_200:
  assumes "connect_outcome env (connects w) = None"
      and "request_outcome env (requests w) = None"
      and "response_outcome env (responses w) = Inr r"
      and "status r \<noteq> 200"
  shows "check_event_availability env w =
           (Inl (Exn NotTwoHundredStatusError (''Check availability status: '' @ str_int (status r))),
            w\<lparr>connects := connects w + 1, requests := requests w + 1, responses := responses w + 1,
              trace := trace w @ [Connect, Request ''GET'' (listings_url env) ''''], sock := True\<rparr>)"
  using assms
  by (simp add: check_event_availability_def ensure_connection_ok poll_connection_def
        fetch_items_def conn_request_def send_request_def conn_getresponse_def emit_def)

lemma login_ok:
  assumes "connect_outcome env (connects w) = None"
      and "request_outcome env (requests w) = None"
      and "response_outcome env (responses w) = Inr r"
      and "status r = 200"
      and "payload r = Inr res"
      and "validate_auth_response res = Inr token"
  shows "authenticate env w =
           (Inr token,
            w\<lparr>connects := connects w + 1, requests := requests w + 1, responses := responses w + 1,
              trace := trace w @ [Connect, Request ''POST'' (login_url env) (login_body env)],
              sock := True\<rparr>)"
  using assms
  by (simp add: authenticate_def ensure_connection_ok conn_request_def send_request_def
        conn_getresponse_def emit_def)

text \<open>One pass in which the poll is refused and the login that follows succeeds.\<close>

lemma refused_pass:
  assumes conn: "\<forall>n. connect_outcome env n = None"
      and req: "\<forall>n. request_outcome env n = None"
      and poll: "response_outcome env (responses w) = Inr r" "status r \<noteq> 200"
      and login: "response_outcome env (responses w + 1) = Inr r'" "status r' = 200"
                 "payload r' = Inr res" "validate_auth_response res = Inr token" "token \<noteq> JNull"
      and day: "\<not> quiet_window (now t)"
      and att: "attempts l \<le> MAX_RETRIES"
  shows "run_iteration env t l w =
           (None, l\<lparr>attempts := attempts l + 1\<rparr>,
            w\<lparr>connects := connects w + 2, requests := requests w + 2, responses := responses w + 2,
              trace := trace w @ [Connect, Request ''GET'' (listings_url env) '''', Close,
                                 Sleep (seconds (auth_time_delay t * 2 ^ attempts l)),
                                 Connect, Request ''POST'' (login_url env) (login_body env)],
              sock := True\<rparr>)"
proof -
  let ?w1 = "w\<lparr>connects := connects w + 1, requests := requests w + 1, responses := responses w + 1,
              trace := trace w @ [Connect, Request ''GET'' (listings_url env) ''''], sock := True\<rparr>"
  let ?w2 = "sleep (seconds (auth_time_delay t * 2 ^ attempts l)) (conn_close ?w1)"
  have p: "check_event_availability env w =
           (Inl (Exn NotTwoHundredStatusError (''Check availability status: '' @ str_int (status r))), ?w1)"
    using conn req poll by (simp add: poll_not_200)
  have a: "authenticate env ?w2 =
           (Inr token,
            ?w2\<lparr>connects := connects ?w2 + 1, requests := requests ?w2 + 1, responses := responses ?w2 + 1,
              trace := trace ?w2 @ [Connect, Request ''POST'' (login_url env) (login_body env)],
              sock := True\<rparr>)"
    using conn req login by (intro login_ok) (simp_all add: sleep_def conn_close_def emit_def)
  show ?thesis
    using day att login(5) a
    by (simp add: run_iteration_def after_poll_def p reauthenticate_def Let_def
          sleep_def conn_close_def emit_def)
qed

text \<open>The pass after the retries are used up.\<close>

lemma giving_up_pass:
  assumes conn: "\<forall>n. connect_outcome env n = None"
      and req: "\<forall>n. request_outcome env n = None"
      and poll: "response_outcome env (responses w) = Inr r" "status r \<noteq> 200"
      and day: "\<not> quiet_window (now t)"
      and att: "attempts l > MAX_RETRIES"
  shows "run_iteration env t l w =
           (Some (Exn SystemExit exit_error_message), l,
            w\<lparr>connects := connects w + 1, requests := requests w + 1, responses := responses w + 1,
              trace := trace w @ [Connect, Request ''GET'' (listings_url env) '''',
                                 Save (json_dumps (JArr (notified_ids l))),
                                 Notify exit_error_message],
              files := (files w)(NOTIFIED_IDS_FILE := Some (json_dumps (JArr (notified_ids l)))),
              sock := True\<rparr>)"
proof -
  let ?w1 = "w\<lparr>connects := connects w + 1, requests := requests w + 1, responses := responses w + 1,
              trace := trace w @ [Connect, Request ''GET'' (listings_url env) ''''], sock := True\<rparr>"
  have p: "check_event_availability env w =
           (Inl (Exn NotTwoHundredStatusError (''Check availability status: '' @ str_int (status r))), ?w1)"
    using conn req poll by (simp add: poll_not_200)
  show ?thesis
    using day att
    by (simp add: run_iteration_def after_poll_def p reauthenticate_def Let_def
          save_notified_ids_def send_notification_def emit_def del: json_dumps.simps)
qed

lemma run_loop_append:
  "run_loop env ts l w = (None, l1, w1) \<Longrightarrow> run_loop env (ts @ us) l w = run_loop env us l1 w1"
proof (induction ts arbitrary: l w)
  case Nil
  then show ?case by simp
next
  case (Cons t ts)
  obtain r l2 w2 where it: "run_iteration env t l w = (r, l2, w2)"
    by (cases "run_iteration env t l w")
  show ?case
  proof (cases r)
    case None
    then show ?thesis using Cons it by simp
  next
    case (Some e)
    then show ?thesis using Cons.prems it by simp
  qed
qed

lemma refused_passes:
  assumes conn: "\<forall>n. connect_outcome env n = None"
      and req: "\<forall>n. request_outcome env n = None"
      and poll: "\<forall>n. \<exists>r. response_outcome env (responses w + 2 * n) = Inr r \<and> status r \<noteq> 200"
      and login: "\<forall>n. \<exists>r res token. response_outcome env (responses w + 2 * n + 1) = Inr r
                    \<and> status r = 200 \<and> payload r = Inr res
                    \<and> validate_auth_response res = Inr token \<and> token \<noteq> JNull"
      and day: "list_all (\<lambda>t. \<not> quiet_window (now t)) ticks"
      and att: "attempts l + length ticks \<le> MAX_RETRIES + 1"
  shows "\<exists>w'. run_loop env ticks l w = (None, l\<lparr>attempts := attempts l + length ticks\<rparr>, w')
          \<and> trace w' = trace w @ concat (map (\<lambda>(n, t).
                [Connect, Request ''GET'' (listings_url env) '''', Close,
                 Sleep (seconds (auth_time_delay t * 2 ^ n)),
                 Connect, Request ''POST'' (login_url env) (login_body env)])
              (enumerate (attempts l) ticks))
          \<and> responses w' = responses w + 2 * length ticks
          \<and> files w' = files w"
  using poll login day att
proof (induction ticks arbitrary: l w)
  case Nil
  show ?case by simp
next
  case (Cons t ts)
  obtain r where r: "response_outcome env (responses w) = Inr r" "status r \<noteq> 200"
    using Cons.prems(1) [rule_format, of 0] by auto
  obtain r' res token where r': "response_outcome env (responses w + 1) = Inr r'" "status r' = 200"
      "payload r' = Inr res" "validate_auth_response res = Inr token" "token \<noteq> JNull"
    using Cons.prems(2) [rule_format, of 0] by auto
  have d: "\<not> quiet_window (now t)" using Cons.prems(3) by simp
  have a: "attempts l \<le> MAX_RETRIES" using Cons.prems(4) by simp
  let ?l1 = "l\<lparr>attempts := attempts l + 1\<rparr>"
  let ?w1 = "w\<lparr>connects := connects w + 2, requests := requests w + 2, responses := responses w + 2,
              trace := trace w @ [Connect, Request ''GET'' (listings_url env) '''', Close,
                                 Sleep (seconds (auth_time_delay t * 2 ^ attempts l)),
                                 Connect, Request ''POST'' (login_url env) (login_body env)],
              sock := True\<rparr>"
  have step: "run_iteration env t l w = (None, ?l1, ?w1)"
    using conn req r r' d a by (rule refused_pass)
  have poll1: "\<forall>n. \<exists>r. response_outcome env (responses ?w1 + 2 * n) = Inr r \<and> status r \<noteq> 200"
  proof
    fix n
    show "\<exists>r. response_outcome env (responses ?w1 + 2 * n) = Inr r \<and> status r \<noteq> 200"
      using Cons.prems(1) [rule_format, of "Suc n"] by (simp add: add.commute add.left_commute)
  qed
  have login1: "\<forall>n. \<exists>r res token. response_outcome env (responses ?w1 + 2 * n + 1) = Inr r
                    \<and> status r = 200 \<and> payload r = Inr res
                    \<and> validate_auth_response res = Inr token \<and> token \<noteq> JNull"
  proof
    fix n
    show "\<exists>r res token. response_outcome env (responses ?w1 + 2 * n + 1) = Inr r
                    \<and> status r = 200 \<and> payload r = Inr res
                    \<and> validate_auth_response res = Inr token \<and> token \<noteq> JNull"
      using Cons.prems(2) [rule_format, of "Suc n"] by (simp add: add.commute add.left_commute)
  qed
  have day1: "list_all (\<lambda>t. \<not> quiet_window (now t)) ts" using Cons.prems(3) by simp
  have att1: "attempts ?l1 + length ts \<le> MAX_RETRIES + 1" using Cons.prems(4) by simp
  obtain w' where w': "run_loop env ts ?l1 ?w1 = (None, ?l1\<lparr>attempts := attempts ?l1 + length ts\<rparr>, w')"
      "trace w' = trace ?w1 @ concat (map (\<lambda>(n, t).
                [Connect, Request ''GET'' (listings_url env) '''', Close,
                 Sleep (seconds (auth_time_delay t * 2 ^ n)),
                 Connect, Request ''POST'' (login_url env) (login_body env)])
              (enumerate (attempts ?l1) ts))"
      "responses w' = responses ?w1 + 2 * length ts" "files w' = files ?w1"
    using Cons.IH [OF poll1 login1 day1 att1] by blast
  show ?case
    using step w' by (simp add: enumerate_simps)
qed

text \<open>
  C2.  Let the service refuse every poll with a status other than 200 and accept every
  login that follows, all connections and requests succeeding, in passes outside the
  quiet window, starting with \<open>attempts = 0\<close>.  Then for up to \<open>MAX_RETRIES + 1\<close> such
  passes the loop goes on, and the n-th pass (from 0) is exactly: connect, poll, close
  the connection, sleep \<open>auth_time_delay * 2 ^ n\<close> seconds with the \<open>auth_time_delay\<close>
  drawn in that pass, connect, log in; \<open>attempts\<close> ends as the number of passes.  After
  \<open>MAX_RETRIES + 1\<close> of them \<open>attempts\<close> exceeds \<open>MAX_RETRIES\<close>, and the next refused poll
  saves the ledger, sends the final notification and leaves through \<open>sys.exit\<close> with a
  message, which ends the process with status 1.
\<close>

theorem backoff_sequence:
  assumes conn: "\<forall>n. connect_outcome env n = None"
      and req: "\<forall>n. request_outcome env n = None"
      and poll: "\<forall>n. \<exists>r. response_outcome env (responses w + 2 * n) = Inr r \<and> status r \<noteq> 200"
      and login: "\<forall>n. \<exists>r res token. response_outcome env (responses w + 2 * n + 1) = Inr r
                    \<and> status r = 200 \<and> payload r = Inr res
                    \<and> validate_auth_response res = Inr token \<and> token \<noteq> JNull"
      and day: "list_all (\<lambda>t. \<not> quiet_window (now t)) ticks"
      and start: "attempts l = 0"
      and len: "length ticks \<le> MAX_RETRIES + 1"
  shows "\<exists>w'. run_loop env ticks l w = (None, l\<lparr>attempts := length ticks\<rparr>, w')
          \<and> trace w' = trace w @ concat (map (\<lambda>(n, t).
                [Connect, Request ''GET'' (listings_url env) '''', Close,
                 Sleep (seconds (auth_time_delay t * 2 ^ n)),
                 Connect, Request ''POST'' (login_url env) (login_body env)])
              (enumerate 0 ticks))
          \<and> (length ticks = MAX_RETRIES + 1 \<longrightarrow>
               (\<forall>t. \<not> quiet_window (now t) \<longrightarrow>
                 (\<exists>w''. run_loop env (ticks @ [t]) l w
                          = (Some (Exn SystemExit exit_error_message), l\<lparr>attempts := MAX_RETRIES + 1\<rparr>, w'')
                    \<and> trace w'' = trace w' @ [Connect, Request ''GET'' (listings_url env) '''',
                                              Save (json_dumps (JArr (notified_ids l))),
                                              Notify exit_error_message]
                    \<and> files w'' NOTIFIED_IDS_FILE = Some (json_dumps (JArr (notified_ids l)))
                    \<and> finish (run_loop env (ticks @ [t]) l w) = (Exited exit_error_message, w'')
                    \<and> exit_status (Exited exit_error_message) = Some 1)))"
proof -
  have att: "attempts l + length ticks \<le> MAX_RETRIES + 1" using start len by simp
  obtain w' where w': "run_loop env ticks l w = (None, l\<lparr>attempts := attempts l + length ticks\<rparr>, w')"
      "trace w' = trace w @ concat (map (\<lambda>(n, t).
                [Connect, Request ''GET'' (listings_url env) '''', Close,
                 Sleep (seconds (auth_time_delay t * 2 ^ n)),
                 Connect, Request ''POST'' (login_url env) (login_body env)])
              (enumerate (attempts l) ticks))"
      "responses w' = responses w + 2 * length ticks" "files w' = files w"
    using refused_passes [OF conn req poll login day att] by blast
  have give_up: "\<exists>w''. run_loop env (ticks @ [t]) l w
                          = (Some (Exn SystemExit exit_error_message), l\<lparr>attempts := MAX_RETRIES + 1\<rparr>, w'')
                    \<and> trace w'' = trace w' @ [Connect, Request ''GET'' (listings_url env) '''',
                                              Save (json_dumps (JArr (notified_ids l))),
                                              Notify exit_error_message]
                    \<and> files w'' NOTIFIED_IDS_FILE = Some (json_dumps (JArr (notified_ids l)))
                    \<and> finish (run_loop env (ticks @ [t]) l w) = (Exited exit_error_message, w'')
                    \<and> exit_status (Exited exit_error_message) = Some 1"
    if full: "length ticks = MAX_RETRIES + 1" and d: "\<not> quiet_window (now t)" for t
  proof -
    let ?l1 = "l\<lparr>attempts := attempts l + length ticks\<rparr>"
    obtain r where r: "response_outcome env (responses w') = Inr r" "status r \<noteq> 200"
      using poll [rule_format, of "length ticks"] w'(3) by (auto simp: add.commute)
    have a: "attempts ?l1 > MAX_RETRIES" using full start by simp
    let ?w2 = "w'\<lparr>connects := connects w' + 1, requests := requests w' + 1, responses := responses w' + 1,
              trace := trace w' @ [Connect, Request ''GET'' (listings_url env) '''',
                                 Save (json_dumps (JArr (notified_ids ?l1))),
                                 Notify exit_error_message],
              files := (files w')(NOTIFIED_IDS_FILE := Some (json_dumps (JArr (notified_ids ?l1)))),
              sock := True\<rparr>"
    have last: "run_iteration env t ?l1 w' = (Some (Exn SystemExit exit_error_message), ?l1, ?w2)"
      using conn req r d a by (rule giving_up_pass)
    have "run_loop env (ticks @ [t]) l w = run_loop env [t] ?l1 w'"
      using w'(1) by (rule run_loop_append)
    then have rl: "run_loop env (ticks @ [t]) l w = (Some (Exn SystemExit exit_error_message), ?l1, ?w2)"
      using last by simp
    have fin: "finish (run_loop env (ticks @ [t]) l w) = (Exited exit_error_message, ?w2)"
      unfolding rl by (simp add: finish_def)
    show ?thesis
      using rl fin full start by (intro exI [of _ ?w2]) (simp del: json_dumps.simps)
  qed
  show ?thesis
    using w'(1,2) give_up start by (intro exI [of _ w']) simp
qed

theorem backoff_sequence_witness:
  "(\<forall>n. connect_outcome expired_session_env n = None)
   \<and> (\<forall>n. request_outcome expired_session_env n = None)
   \<and> list_all (\<lambda>t. \<not> quiet_window (now t)) (replicate 6 noon)
   \<and> attempts \<lparr>count = 1, attempts = 0, notified_ids = []\<rparr> = 0
   \<and> length (replicate 6 noon) = MAX_RETRIES + 1
   \<and> (\<exists>w' w''. run_loop expired_session_env (replicate 6 noon)
                 \<lparr>count = 1, attempts = 0, notified_ids = []\<rparr> ((init_world no_files)\<lparr>responses := 1\<rparr>)
               = (None, \<lparr>count = 1, attempts = 6, notified_ids = []\<rparr>, w')
        \<and> trace w' = concat (map (\<lambda>n.
                [Connect, Request ''GET'' (listings_url expired_session_env) '''', Close,
                 Sleep (seconds (200 * 2 ^ n)),
                 Connect, Request ''POST'' (login_url expired_session_env) (login_body expired_session_env)])
              [0, 1, 2, 3, 4, 5])
        \<and> finish (run_loop expired_session_env (replicate 6 noon @ [noon])
                 \<lparr>count = 1, attempts = 0, notified_ids = []\<rparr> ((init_world no_files)\<lparr>responses := 1\<rparr>))
               = (Exited exit_error_message, w'')
        \<and> trace w'' = trace w' @ [Connect, Request ''GET'' (listings_url expired_session_env) '''',
                                  Save (json_dumps (JArr [])), Notify exit_error_message])"
proof -
  let ?env = expired_session_env
  let ?l = "\<lparr>count = 1, attempts = 0, notified_ids = []\<rparr>"
  let ?w = "(init_world no_files)\<lparr>responses := 1\<rparr>"
  have conn: "\<forall>n. connect_outcome ?env n = None"
    by (simp add: expired_session_env_def calm_env_def)
  have req: "\<forall>n. request_outcome ?env n = None"
    by (simp add: expired_session_env_def calm_env_def)
  have poll: "\<forall>n. \<exists>r. response_outcome ?env (responses ?w + 2 * n) = Inr r \<and> status r \<noteq> 200"
    by (simp add: expired_session_env_def calm_env_def init_world_def forbidden_def)
  have login: "\<forall>n. \<exists>r res token. response_outcome ?env (responses ?w + 2 * n + 1) = Inr r
                    \<and> status r = 200 \<and> payload r = Inr res
                    \<and> validate_auth_response res = Inr token \<and> token \<noteq> JNull"
    by (simp add: expired_session_env_def calm_env_def init_world_def reply_def
          validate_auth_response_def required_keys_def)
  have day: "list_all (\<lambda>t. \<not> quiet_window (now t)) (replicate 6 noon)"
    by (simp add: list_all_iff quiet_window_def noon_def)
  have start: "attempts ?l = 0" by simp
  have len: "length (replicate 6 noon) \<le> MAX_RETRIES + 1" by (simp add: MAX_RETRIES_def)
  have full: "length (replicate 6 noon) = MAX_RETRIES + 1" by (simp add: MAX_RETRIES_def)
  have d: "\<not> quiet_window (now noon)" by (simp add: quiet_window_def noon_def)
  have six: "replicate 6 noon = [noon, noon, noon, noon, noon, noon]"
    by (simp add: numeral_eq_Suc)
  obtain w' where w': "run_loop ?env (replicate 6 noon) ?l ?w = (None, ?l\<lparr>attempts := length (replicate 6 noon)\<rparr>, w')"
     "trace w' = trace ?w @ concat (map (\<lambda>(n, t).
                [Connect, Request ''GET'' (listings_url ?env) '''', Close,
                 Sleep (seconds (auth_time_delay t * 2 ^ n)),
                 Connect, Request ''POST'' (login_url ?env) (login_body ?env)])
              (enumerate 0 (replicate 6 noon)))"
     and rest: "length (replicate 6 noon) = MAX_RETRIES + 1 \<longrightarrow>
               (\<forall>t. \<not> quiet_window (now t) \<longrightarrow>
                 (\<exists>w''. run_loop ?env (replicate 6 noon @ [t]) ?l ?w
                          = (Some (Exn SystemExit exit_error_message), ?l\<lparr>attempts := MAX_RETRIES + 1\<rparr>, w'')
                    \<and> trace w'' = trace w' @ [Connect, Request ''GET'' (listings_url ?env) '''',
                                              Save (json_dumps (JArr (notified_ids ?l))),
                                              Notify exit_error_message]
                    \<and> files w'' NOTIFIED_IDS_FILE = Some (json_dumps (JArr (notified_ids ?l)))
                    \<and> finish (run_loop ?env (replicate 6 noon @ [t]) ?l ?w) = (Exited exit_error_message, w'')
                    \<and> exit_status (Exited exit_error_message) = Some 1))"
    using backoff_sequence [OF conn req poll login day start len] by blast
  obtain w'' where w'': "finish (run_loop ?env (replicate 6 noon @ [noon]) ?l ?w) = (Exited exit_error_message, w'')"
     "trace w'' = trace w' @ [Connect, Request ''GET'' (listings_url ?env) '''',
                                              Save (json_dumps (JArr (notified_ids ?l))),
                                              Notify exit_error_message]"
    using rest full d by blast
  have t': "trace w' = concat (map (\<lambda>n.
                [Connect, Request ''GET'' (listings_url ?env) '''', Close,
                 Sleep (seconds (200 * 2 ^ n)),
                 Connect, Request ''POST'' (login_url ?env) (login_body ?env)])
              [0, 1, 2, 3, 4, 5])"
    unfolding w'(2) six by (simp add: enumerate_simps init_world_def noon_def)
  have r': "run_loop ?env (replicate 6 noon) ?l ?w = (None, \<lparr>count = 1, attempts = 6, notified_ids = []\<rparr>, w')"
    using w'(1) by simp
  show ?thesis
    using conn req day full r' t' w'' by (auto simp del: json_dumps.simps)
qed

lemma authenticate_prefix: "prefix (trace w) (trace (snd (authenticate env w)))"
proof -
  obtain r1 w1 where c1: "ensure_connection env w = (r1, w1)" by (cases "ensure_connection env w")
  have p1: "prefix (trace w) (trace w1)"
    using ensure_from_prefix [of w env 0] c1 by (simp add: ensure_connection_def)
  obtain r2 w2 where c2: "conn_request env ''POST'' (login_url env) (login_body env) w1 = (r2, w2)"
    by (cases "conn_request env ''POST'' (login_url env) (login_body env) w1")
  have "prefix (trace w1) (trace w2)"
    using trace_conn_request [of w1 env "''POST''" "login_url env" "login_body env"] c2 by simp
  with p1 have p2: "prefix (trace w) (trace w2)" by (rule prefix_order.trans)
  obtain r3 w3 where c3: "conn_getresponse env w2 = (r3, w3)" by (cases "conn_getresponse env w2")
  have "trace w3 = trace w2" using trace_conn_getresponse [of env w2] c3 by simp
  with p2 have p3: "prefix (trace w) (trace w3)" by simp
  show ?thesis
    using c1 c2 c3 p1 p2 p3 by (auto simp: authenticate_def split: sum.splits)
qed

text \<open>
  In any environment: a pass whose poll raises \<open>NotTwoHundredStatusError\<close> while
  \<open>attempts\<close> is within the limit closes the connection, then sleeps
  \<open>auth_time_delay * 2 ^ attempts\<close> seconds, and leaves \<open>attempts\<close> one higher, whatever
  the login that follows does.
\<close>

lemma refused_poll_backs_off:
  assumes "\<not> quiet_window (now t)"
      and "check_event_availability env w = (Inl e, w1)"
      and "exn_class e = NotTwoHundredStatusError"
      and "attempts l \<le> MAX_RETRIES"
  shows "\<exists>r w2 evs. run_iteration env t l w = (r, l\<lparr>attempts := attempts l + 1\<rparr>, w2)
           \<and> trace w2 = trace w1 @ Close # Sleep (seconds (auth_time_delay t * 2 ^ attempts l)) # evs"
proof -
  let ?w2 = "sleep (seconds (auth_time_delay t * 2 ^ attempts l)) (conn_close w1)"
  obtain r3 w3 where a: "authenticate env ?w2 = (r3, w3)" by (cases "authenticate env ?w2")
  obtain evs where "trace w3 = trace ?w2 @ evs"
    using authenticate_prefix [of ?w2 env] a by (auto simp: prefix_def)
  then have t3: "trace w3 = trace w1 @ Close # Sleep (seconds (auth_time_delay t * 2 ^ attempts l)) # evs"
    by (simp add: trace_sleep trace_conn_close)
  show ?thesis
    using assms a t3
    by (cases r3) (auto simp: run_iteration_def after_poll_def reauthenticate_def Let_def)
qed

lemma refused_poll_gives_up:
  assumes "\<not> quiet_window (now t)"
      and "check_event_availability env w = (Inl e, w1)"
      and "exn_class e = NotTwoHundredStatusError"
      and "attempts l > MAX_RETRIES"
  shows "run_iteration env t l w =
           (Some (Exn SystemExit exit_error_message), l,
            send_notification exit_error_message (save_notified_ids (notified_ids l) w1))
         \<and> fst (finish (run_iteration env t l w)) = Exited exit_error_message"
  using assms
  by (simp add: run_iteration_def after_poll_def reauthenticate_def Let_def finish_def)

end
